theory Spec2Isabelle
  imports Complex_Main "HOL-Library.Sublist" "HOL-Library.Log_Nat"
begin

section \<open>The P2P USDT trading API: numbers, configuration, tables and schemas\<close>

text \<open>
  The development embeds the deal life cycle of \<^verbatim>\<open>src/main.py\<close> together with the
  table declarations of \<^verbatim>\<open>src/models.py\<close>, the request schemas of
  \<^verbatim>\<open>src/schemas.py\<close> and the choice of engine of \<^verbatim>\<open>src/database.py\<close>.

  Conventions of the embedding:
  \<^item> Python's \<^verbatim>\<open>float\<close> is the IEEE 754 double: the type \<open>float\<close> below with its
    operations, each rounded to the nearest double, ties to even.
  \<^item> The SQLAlchemy session is a record of the engine and four tables, each the list of
    its rows in insertion order. \<^verbatim>\<open>query(T).filter(c).first()\<close> is \<^const>\<open>find\<close> on that
    list, \<^verbatim>\<open>add\<close> followed by \<^verbatim>\<open>commit\<close> and \<^verbatim>\<open>refresh\<close> appends a row carrying a
    fresh primary key and the column defaults, unless the engine rejects the row, and
    assigning an attribute of a loaded row followed by \<^verbatim>\<open>commit\<close> rewrites the rows with
    that primary key.
  \<^item> \<^verbatim>\<open>database.py\<close> runs on PostgreSQL or on SQLite. PostgreSQL checks a row against
    the declarations of \<^verbatim>\<open>models.py\<close>: the length of a \<^verbatim>\<open>String(n)\<close>, the 32-bit range of
    an \<^verbatim>\<open>Integer\<close> and the \<^verbatim>\<open>ForeignKey\<close> references. SQLite, opened as
    \<^verbatim>\<open>database.py\<close> opens it, checks none of these. A rejected \<^verbatim>\<open>commit\<close> raises, the
    handler does not catch it, and nothing of the request is stored. The unique indexes
    are not checked: every handler looks the value up before it inserts. What a driver
    does to a value it cannot store is outside the embedding; requests are handled one
    after another.
  \<^item> The timestamp columns (\<^verbatim>\<open>created_at\<close>, \<^verbatim>\<open>updated_at\<close>, \<^verbatim>\<open>timestamp\<close>) are
    left out.
  \<^item> \<^verbatim>\<open>raise\<close> is the left injection of a sum; every handler returns its result paired
    with the database it leaves behind.
\<close>

subsection \<open>Errors\<close>

text \<open>
  The exceptions that leave a handler: the \<^verbatim>\<open>HTTPException\<close> the handlers raise, the
  rejection of a request body by its schema, the two errors of a rejected \<^verbatim>\<open>commit\<close>,
  and the error of a division by zero.
\<close>

datatype error =
    HTTPException (status_code: nat) (detail: string)
  | RequestValidationError (loc: string)
  | IntegrityError
  | DataError
  | ZeroDivisionError

subsection \<open>Doubles\<close>

text \<open>
  A double is a sign (\<^const>\<open>True\<close> for minus) with a magnitude, an infinity with a sign,
  or not a number. The magnitude is meant to be non-negative; \<open>Finite True 0\<close> is the
  negative zero.
\<close>

datatype float = Finite bool real | Infinity bool | NaN

definition pow2 :: "int \<Rightarrow> real" where
  "pow2 e = (if 0 \<le> e then 2 ^ nat e else 1 / 2 ^ nat (- e))"

text \<open>The binary exponent of a positive number: \<open>pow2 (ilog2 m) \<le> m < pow2 (ilog2 m + 1)\<close>.\<close>

definition ilog2 :: "real \<Rightarrow> int" where
  "ilog2 m = (if 1 \<le> m then bitlen \<lfloor>m\<rfloor> - 1 else - bitlen (\<lceil>1 / m\<rceil> - 1))"

text \<open>The nearest integer, the even one of two that are equally near.\<close>

definition rne :: "real \<Rightarrow> int" where
  "rne x = (let n = \<lfloor>x\<rfloor>; r = x - of_int n
            in if r < 1 / 2 then n else if 1 / 2 < r then n + 1 else if even n then n else n + 1)"

text \<open>
  The double nearest to the magnitude \<open>m\<close>, with sign \<open>s\<close>: 53 significant bits, exponents
  from -1022 (below it the spacing stays \<open>pow2 (-1074)\<close>) to 1023, and infinity from
  \<open>pow2 1024\<close> on.
\<close>

definition round64 :: "bool \<Rightarrow> real \<Rightarrow> float" where
  "round64 s m =
     (if m = 0 then Finite s 0
      else let e = max (ilog2 m) (- 1022); q = pow2 (e - 52); r = of_int (rne (m / q)) * q
           in if pow2 1024 \<le> r then Infinity s else Finite s r)"

text \<open>\<^verbatim>\<open>x * y\<close>\<close>

fun fmul :: "float \<Rightarrow> float \<Rightarrow> float" where
  "fmul (Finite s m) (Finite t n) = round64 (s \<noteq> t) (m * n)"
| "fmul (Finite s m) (Infinity t) = (if m = 0 then NaN else Infinity (s \<noteq> t))"
| "fmul (Infinity s) (Finite t n) = (if n = 0 then NaN else Infinity (s \<noteq> t))"
| "fmul (Infinity s) (Infinity t) = Infinity (s \<noteq> t)"
| "fmul NaN y = NaN"
| "fmul x NaN = NaN"

text \<open>\<^verbatim>\<open>x / y\<close>, which raises when \<open>y\<close> is a zero.\<close>

fun ftruediv :: "float \<Rightarrow> float \<Rightarrow> error + float" where
  "ftruediv x (Finite t n) =
     (if n = 0 then Inl ZeroDivisionError
      else case x of
             Finite s m \<Rightarrow> Inr (round64 (s \<noteq> t) (m / n))
           | Infinity s \<Rightarrow> Inr (Infinity (s \<noteq> t))
           | NaN \<Rightarrow> Inr NaN)"
| "ftruediv x (Infinity t) =
     (case x of Finite s m \<Rightarrow> Inr (Finite (s \<noteq> t) 0) | Infinity s \<Rightarrow> Inr NaN | NaN \<Rightarrow> Inr NaN)"
| "ftruediv x NaN = Inr NaN"

text \<open>\<^verbatim>\<open>x - y\<close>\<close>

fun fsub :: "float \<Rightarrow> float \<Rightarrow> float" where
  "fsub (Finite s m) (Finite t n) =
     (let r = (if s then - m else m) - (if t then - n else n)
      in if r = 0 then Finite (s \<and> \<not> t) 0 else round64 (r < 0) \<bar>r\<bar>)"
| "fsub (Finite s m) (Infinity t) = Infinity (\<not> t)"
| "fsub (Infinity s) (Finite t n) = Infinity s"
| "fsub (Infinity s) (Infinity t) = (if s = t then NaN else Infinity s)"
| "fsub NaN y = NaN"
| "fsub x NaN = NaN"

text \<open>\<^verbatim>\<open>x > y\<close>\<close>

fun fgt :: "float \<Rightarrow> float \<Rightarrow> bool" where
  "fgt (Finite s m) (Finite t n) = ((if t then - n else n) < (if s then - m else m))"
| "fgt (Finite s m) (Infinity t) = t"
| "fgt (Infinity s) (Finite t n) = (\<not> s)"
| "fgt (Infinity s) (Infinity t) = (\<not> s \<and> t)"
| "fgt NaN y = False"
| "fgt x NaN = False"

text \<open>The double a decimal literal or an integer denotes.\<close>

definition float_of :: "real \<Rightarrow> float" where
  "float_of x = round64 (x < 0) \<bar>x\<bar>"

subsection \<open>Process-wide configuration (main.py, lines 34-37)\<close>

record config =
  ESCROW_WALLET :: string
  COMMISSION_PERCENT :: float
  RELEASE_SECRET :: string

text \<open>The values taken when the environment variables are not set; 1.5 is a double.\<close>

definition default_config :: config where
  "default_config =
     \<lparr>ESCROW_WALLET = ''TXxxxxxx'',
      COMMISSION_PERCENT = Finite False (3 / 2),
      RELEASE_SECRET = ''p2p_secure_release_key_2024''\<rparr>"

subsection \<open>Tables (models.py) and engines (database.py)\<close>

record User =
  id :: int
  name :: string
  telegram_username :: string
  user_type :: string
  verified :: bool

record Listing =
  id :: int
  user_id :: int
  listing_type :: string
  amount :: float
  rate :: float
  payment_method :: string
  contact :: string
  status :: string

record Deal =
  id :: int
  listing_id :: int
  buyer_id :: int
  seller_id :: int
  usdt_amount :: float
  etb_amount :: float
  trade_code :: string
  escrow_wallet :: string
  status :: string
  commission_amount :: float

text \<open>
  The notes of a log row are f-strings; a formatted float is kept as the number it
  formats.
\<close>

datatype piece = Str string | Num float

record Log =
  id :: int
  deal_id :: int
  action :: string
  "notes" :: "piece list"

datatype engine = SQLite | PostgreSQL

record database =
  engine :: engine
  users :: "User list"
  listings :: "Listing list"
  deals :: "Deal list"
  logs :: "Log list"

definition empty_database :: "engine \<Rightarrow> database" where
  "empty_database e = \<lparr>engine = e, users = [], listings = [], deals = [], logs = []\<rparr>"

text \<open>
  The integer primary key the engine assigns to an inserted row: one more than the
  largest key of the table, 1 for an empty table.
\<close>

definition next_id :: "int list \<Rightarrow> int" where
  "next_id ids = fold max ids 0 + 1"

text \<open>
  What PostgreSQL checks of a row at \<^verbatim>\<open>commit\<close>: first that every value fits its column,
  a \<^verbatim>\<open>String(n)\<close> by its length and an \<^verbatim>\<open>Integer\<close> by its 32 bits, then that every
  \<^verbatim>\<open>ForeignKey\<close> names a row that exists. SQLite checks neither.
\<close>

definition int4 :: "int \<Rightarrow> bool" where
  "int4 n = (- 2147483648 \<le> n \<and> n \<le> 2147483647)"

definition user_violation :: "database \<Rightarrow> User \<Rightarrow> error option" where
  "user_violation db row =
     (case engine db of
        SQLite \<Rightarrow> None
      | PostgreSQL \<Rightarrow>
          if 100 < length (User.name row) \<or> 50 < length (User.telegram_username row) \<or>
             20 < length (User.user_type row)
          then Some DataError else None)"

definition listing_violation :: "database \<Rightarrow> Listing \<Rightarrow> error option" where
  "listing_violation db row =
     (case engine db of
        SQLite \<Rightarrow> None
      | PostgreSQL \<Rightarrow>
          if 10 < length (Listing.listing_type row) \<or> 100 < length (Listing.payment_method row) \<or>
             200 < length (Listing.contact row) \<or> 20 < length (Listing.status row) \<or>
             \<not> int4 (Listing.user_id row)
          then Some DataError
          else if Listing.user_id row \<notin> set (map User.id (users db))
          then Some IntegrityError else None)"

definition deal_violation :: "database \<Rightarrow> Deal \<Rightarrow> error option" where
  "deal_violation db row =
     (case engine db of
        SQLite \<Rightarrow> None
      | PostgreSQL \<Rightarrow>
          if 10 < length (Deal.trade_code row) \<or> 100 < length (Deal.escrow_wallet row) \<or>
             20 < length (Deal.status row) \<or> \<not> int4 (Deal.listing_id row) \<or>
             \<not> int4 (Deal.buyer_id row) \<or> \<not> int4 (Deal.seller_id row)
          then Some DataError
          else if Deal.listing_id row \<notin> set (map Listing.id (listings db)) \<or>
                  Deal.buyer_id row \<notin> set (map User.id (users db)) \<or>
                  Deal.seller_id row \<notin> set (map User.id (users db))
          then Some IntegrityError else None)"

text \<open>
  The log rows and the status updates the handlers write are not checked: the deal they
  refer to has just been read and their strings are short constants.
\<close>

subsection \<open>Request schemas (schemas.py)\<close>

record UserCreate =
  name :: string
  telegram_username :: string
  user_type :: string

record ListingCreate =
  listing_type :: string
  amount :: float
  rate :: float
  payment_method :: string
  contact :: string
  user_id :: int

record DealCreate =
  usdt_amount :: float
  listing_id :: int
  buyer_id :: int

record PaymentConfirmation =
  trade_code :: string

record AdminRelease =
  trade_code :: string
  secret :: string

subsection \<open>Responses\<close>

record PaymentConfirmed =
  message :: string
  trade_code :: string

record FundsReleased =
  message :: string
  trade_code :: string
  amount_released :: float
  commission :: float

section \<open>The trade-code generator (models.py, lines 63-66)\<close>

definition ascii_uppercase :: string where
  "ascii_uppercase = ''ABCDEFGHIJKLMNOPQRSTUVWXYZ''"

definition digits :: string where
  "digits = ''0123456789''"

text \<open>
  The module-level random generator is a tape \<open>rnd\<close> of the values successive calls of
  \<^verbatim>\<open>random()\<close> return, read from position \<open>pos\<close> on. \<^verbatim>\<open>random.choices(population, k=k)\<close>
  without weights picks \<^verbatim>\<open>population[floor(random() * n)]\<close> \<open>k\<close> times, \<open>n\<close> the size of
  the population.
\<close>

definition choices :: "'a list \<Rightarrow> nat \<Rightarrow> (nat \<Rightarrow> real) \<Rightarrow> nat \<Rightarrow> 'a list" where
  "choices population k rnd pos =
     map (\<lambda>i. population ! nat \<lfloor>rnd i * real (length population)\<rfloor>) [pos ..< pos + k]"

text \<open>\<^verbatim>\<open>random()\<close> returns a value in the half-open interval from 0 to 1.\<close>

definition unit_interval :: "(nat \<Rightarrow> real) \<Rightarrow> bool" where
  "unit_interval rnd = (\<forall>n. 0 \<le> rnd n \<and> rnd n < 1)"

text \<open>The code drawn at tape position \<open>pos\<close>, and the position after the draw.\<close>

definition generate_trade_code :: "(nat \<Rightarrow> real) \<Rightarrow> nat \<Rightarrow> string \<times> nat" where
  "generate_trade_code rnd pos = (choices (ascii_uppercase @ digits) 5 rnd pos, pos + 5)"

section \<open>Handlers (main.py)\<close>

subsection \<open>Users and listings (lines 79-120)\<close>

definition create_user :: "UserCreate \<Rightarrow> database \<Rightarrow> (error + User) \<times> database" where
  "create_user user db =
     (case find (\<lambda>u. User.telegram_username u = UserCreate.telegram_username user) (users db) of
        Some existing_user \<Rightarrow> (Inl (HTTPException 400 ''User already exists''), db)
      | None \<Rightarrow>
          let db_user =
                \<lparr>User.id = next_id (map User.id (users db)),
                 name = UserCreate.name user,
                 telegram_username = UserCreate.telegram_username user,
                 user_type = UserCreate.user_type user,
                 verified = False\<rparr>
          in case user_violation db db_user of
               Some e \<Rightarrow> (Inl e, db)
             | None \<Rightarrow> (Inr db_user, db\<lparr>users := users db @ [db_user]\<rparr>))"

definition create_listing :: "ListingCreate \<Rightarrow> database \<Rightarrow> (error + Listing) \<times> database" where
  "create_listing listing db =
     (case find (\<lambda>u. User.id u = ListingCreate.user_id listing) (users db) of
        None \<Rightarrow> (Inl (HTTPException 404 ''User not found''), db)
      | Some user \<Rightarrow>
          let db_listing =
                \<lparr>Listing.id = next_id (map Listing.id (listings db)),
                 user_id = ListingCreate.user_id listing,
                 listing_type = ListingCreate.listing_type listing,
                 amount = ListingCreate.amount listing,
                 rate = ListingCreate.rate listing,
                 payment_method = ListingCreate.payment_method listing,
                 contact = ListingCreate.contact listing,
                 status = ''active''\<rparr>
          in case listing_violation db db_listing of
               Some e \<Rightarrow> (Inl e, db)
             | None \<Rightarrow> (Inr db_listing, db\<lparr>listings := listings db @ [db_listing]\<rparr>))"

subsection \<open>Deal creation (lines 142-183)\<close>

text \<open>
  The loop of lines 151-153: \<open>cp\<close> holds the code drawn last and the tape position;
  while some deal carries the code, another one is drawn. The loop has no bound, so
  the result is optional: \<^const>\<open>None\<close> stands for a loop that never ends.
\<close>

partial_function (option) unique_trade_code ::
  "(nat \<Rightarrow> real) \<Rightarrow> Deal list \<Rightarrow> string \<times> nat \<Rightarrow> (string \<times> nat) option" where
  "unique_trade_code rnd ds cp =
     (if find (\<lambda>d. Deal.trade_code d = fst cp) ds \<noteq> None
      then unique_trade_code rnd ds (generate_trade_code rnd (snd cp))
      else Some cp)"

declare unique_trade_code.simps [code]

text \<open>
  Lines 155-168: the amounts and the \<^verbatim>\<open>Deal(...)\<close> row, with the primary key and the
  default status the insert gives it. \<open>fraction\<close> is the value of
  \<^verbatim>\<open>COMMISSION_PERCENT / 100\<close>.
\<close>

definition new_deal :: "config \<Rightarrow> DealCreate \<Rightarrow> database \<Rightarrow> Listing \<Rightarrow> string \<Rightarrow> float \<Rightarrow> Deal" where
  "new_deal cfg deal db listing code fraction =
     (let etb = fmul (DealCreate.usdt_amount deal) (Listing.rate listing);
          commission = fmul (DealCreate.usdt_amount deal) fraction
      in \<lparr>Deal.id = next_id (map Deal.id (deals db)),
          listing_id = DealCreate.listing_id deal,
          buyer_id = DealCreate.buyer_id deal,
          seller_id = Listing.user_id listing,
          usdt_amount = DealCreate.usdt_amount deal,
          etb_amount = etb,
          trade_code = code,
          escrow_wallet = ESCROW_WALLET cfg,
          status = ''pending'',
          commission_amount = commission\<rparr>)"

text \<open>Lines 174-179: the log row of the creation.\<close>

definition new_log :: "DealCreate \<Rightarrow> database \<Rightarrow> Deal \<Rightarrow> string \<Rightarrow> Log" where
  "new_log deal db db_deal code =
     \<lparr>Log.id = next_id (map Log.id (logs db)),
      deal_id = Deal.id db_deal,
      action = ''Deal created'',
      notes = [Str ''Trade code: '', Str code, Str '', Amount: '',
               Num (DealCreate.usdt_amount deal), Str '' USDT'']\<rparr>"

text \<open>
  The handler: the listing is looked up, a code is drawn, the amounts are computed (the
  integer 100 of line 157 is the double 100.0), and the row is committed. When the
  engine rejects the row the exception leaves the handler after the codes were drawn.
\<close>

definition create_deal ::
  "config \<Rightarrow> (nat \<Rightarrow> real) \<Rightarrow> nat \<Rightarrow> DealCreate \<Rightarrow> database
     \<Rightarrow> ((error + Deal) \<times> database \<times> nat) option" where
  "create_deal cfg rnd pos deal db =
     (case find (\<lambda>l. Listing.id l = DealCreate.listing_id deal) (listings db) of
        None \<Rightarrow> Some (Inl (HTTPException 404 ''Listing not found''), db, pos)
      | Some listing \<Rightarrow>
          (case unique_trade_code rnd (deals db) (generate_trade_code rnd pos) of
             None \<Rightarrow> None
           | Some (code, pos') \<Rightarrow>
               (case ftruediv (COMMISSION_PERCENT cfg) (Finite False 100) of
                  Inl e \<Rightarrow> Some (Inl e, db, pos')
                | Inr fraction \<Rightarrow>
                    let db_deal = new_deal cfg deal db listing code fraction;
                        log = new_log deal db db_deal code
                    in case deal_violation db db_deal of
                         Some e \<Rightarrow> Some (Inl e, db, pos')
                       | None \<Rightarrow>
                           Some (Inr db_deal,
                                 db\<lparr>deals := deals db @ [db_deal], logs := logs db @ [log]\<rparr>,
                                 pos'))))"

text \<open>
  The request body of \<^verbatim>\<open>POST /deals\<close> is checked against \<^verbatim>\<open>DealCreate\<close> before
  the handler runs: \<^verbatim>\<open>usdt_amount: float = Field(..., gt=0)\<close> (schemas.py, line 45).
\<close>

definition validate_DealCreate :: "DealCreate \<Rightarrow> error + DealCreate" where
  "validate_DealCreate body =
     (if fgt (DealCreate.usdt_amount body) (Finite False 0) then Inr body
      else Inl (RequestValidationError ''usdt_amount''))"

definition post_deals ::
  "config \<Rightarrow> (nat \<Rightarrow> real) \<Rightarrow> nat \<Rightarrow> DealCreate \<Rightarrow> database
     \<Rightarrow> ((error + Deal) \<times> database \<times> nat) option" where
  "post_deals cfg rnd pos body db =
     (case validate_DealCreate body of
        Inl e \<Rightarrow> Some (Inl e, db, pos)
      | Inr deal \<Rightarrow> create_deal cfg rnd pos deal db)"

subsection \<open>Payment confirmation and release (lines 203-269)\<close>

definition startswith :: "string \<Rightarrow> string \<Rightarrow> bool" where
  "startswith s p = (take (length p) s = p)"

text \<open>Lines 207-209 and 240-242: drop a leading \<^verbatim>\<open>#\<close>.\<close>

definition remove_hash :: "string \<Rightarrow> string" where
  "remove_hash code = (if startswith code ''#'' then drop 1 code else code)"

text \<open>\<^verbatim>\<open>deal.status = s\<close> followed by \<^verbatim>\<open>db.commit()\<close>: an update by primary key.\<close>

definition set_status :: "int \<Rightarrow> string \<Rightarrow> Deal list \<Rightarrow> Deal list" where
  "set_status k s ds = map (\<lambda>d. if Deal.id d = k then d\<lparr>Deal.status := s\<rparr> else d) ds"

definition confirm_payment ::
  "PaymentConfirmation \<Rightarrow> database \<Rightarrow> (error + PaymentConfirmed) \<times> database" where
  "confirm_payment confirmation db =
     (let code = remove_hash (PaymentConfirmation.trade_code confirmation) in
      case find (\<lambda>d. Deal.trade_code d = code) (deals db) of
        None \<Rightarrow> (Inl (HTTPException 404 ''Deal not found''), db)
      | Some deal \<Rightarrow>
          if Deal.status deal \<noteq> ''pending''
          then (Inl (HTTPException 400 ''Deal is not in pending status''), db)
          else
            let log =
                  \<lparr>Log.id = next_id (map Log.id (logs db)),
                   deal_id = Deal.id deal,
                   action = ''Payment confirmed'',
                   notes = [Str ''Seller confirmed ETB payment received'']\<rparr>
            in (Inr \<lparr>PaymentConfirmed.message = ''Payment confirmed successfully'',
                     trade_code = Deal.trade_code deal\<rparr>,
                db\<lparr>deals := set_status (Deal.id deal) ''paid'' (deals db),
                   logs := logs db @ [log]\<rparr>))"

definition release_funds ::
  "config \<Rightarrow> AdminRelease \<Rightarrow> database \<Rightarrow> (error + FundsReleased) \<times> database" where
  "release_funds cfg release db =
     (if AdminRelease.secret release \<noteq> RELEASE_SECRET cfg
      then (Inl (HTTPException 403 ''Invalid admin secret''), db)
      else
        let code = remove_hash (AdminRelease.trade_code release) in
        case find (\<lambda>d. Deal.trade_code d = code) (deals db) of
          None \<Rightarrow> (Inl (HTTPException 404 ''Deal not found''), db)
        | Some deal \<Rightarrow>
            if Deal.status deal \<noteq> ''paid''
            then (Inl (HTTPException 400 ''Deal payment not confirmed''), db)
            else
              let log =
                    \<lparr>Log.id = next_id (map Log.id (logs db)),
                     deal_id = Deal.id deal,
                     action = ''Funds released'',
                     notes = [Str ''Admin released '',
                              Num (fsub (Deal.usdt_amount deal) (Deal.commission_amount deal)),
                              Str '' USDT to buyer'']\<rparr>
              in (Inr \<lparr>FundsReleased.message = ''Funds released successfully'',
                       trade_code = Deal.trade_code deal,
                       amount_released = fsub (Deal.usdt_amount deal) (Deal.commission_amount deal),
                       commission = Deal.commission_amount deal\<rparr>,
                  db\<lparr>deals := set_status (Deal.id deal) ''released'' (deals db),
                     logs := logs db @ [log]\<rparr>))"

subsection \<open>The service as a state machine\<close>

text \<open>
  The requests that write to the database, each carrying its validated body. The state
  is the database and the position on the random tape.
\<close>

datatype request =
    Create_user UserCreate
  | Create_listing ListingCreate
  | Create_deal DealCreate
  | Confirm_payment PaymentConfirmation
  | Release_funds AdminRelease

fun handle ::
  "config \<Rightarrow> (nat \<Rightarrow> real) \<Rightarrow> request \<Rightarrow> database \<times> nat \<Rightarrow> (database \<times> nat) option" where
  "handle cfg rnd (Create_user user) (db, pos) = Some (snd (create_user user db), pos)"
| "handle cfg rnd (Create_listing listing) (db, pos) = Some (snd (create_listing listing db), pos)"
| "handle cfg rnd (Create_deal deal) (db, pos) = map_option snd (create_deal cfg rnd pos deal db)"
| "handle cfg rnd (Confirm_payment confirmation) (db, pos) =
     Some (snd (confirm_payment confirmation db), pos)"
| "handle cfg rnd (Release_funds release) (db, pos) = Some (snd (release_funds cfg release db), pos)"

fun run ::
  "config \<Rightarrow> (nat \<Rightarrow> real) \<Rightarrow> request list \<Rightarrow> database \<times> nat \<Rightarrow> (database \<times> nat) option" where
  "run cfg rnd [] s = Some s"
| "run cfg rnd (r # rs) s =
     (case handle cfg rnd r s of None \<Rightarrow> None | Some s' \<Rightarrow> run cfg rnd rs s')"

section \<open>Sample data\<close>

text \<open>
  The concrete tapes, rows and requests that the theorems below are evaluated on. They
  follow the scenarios of the specification: a deal \<^verbatim>\<open>AB12C\<close> of 100 USDT at a rate of
  130 under the default configuration. The numbers are doubles: 100, 130, 13000, 1.5
  and 98.5 are doubles as they stand, and \<open>default_fraction\<close> is the double that
  \<^verbatim>\<open>1.5 / 100\<close> evaluates to, just below 0.015.
\<close>

definition default_fraction :: float where
  "default_fraction = Finite False (8646911284551352 / 2 ^ 59)"

definition half_tape :: "nat \<Rightarrow> real" where
  "half_tape n = 1 / 2"

definition scenario_tape :: "nat \<Rightarrow> real" where
  "scenario_tape n = (if n < 5 then [0, 1 / 36, 27 / 36, 28 / 36, 2 / 36] ! n else 1 / 2)"

definition colliding_tape :: "nat \<Rightarrow> real" where
  "colliding_tape n = (if n < 10 then 0 else 1 / 2)"

definition deal_AB12C :: Deal where
  "deal_AB12C =
     \<lparr>Deal.id = 1, listing_id = 1, buyer_id = 2, seller_id = 1,
      usdt_amount = Finite False 100, etb_amount = Finite False 13000,
      trade_code = ''AB12C'', escrow_wallet = ''TXxxxxxx'', status = ''pending'',
      commission_amount = Finite False (3 / 2)\<rparr>"

definition pending_db :: database where
  "pending_db = \<lparr>engine = SQLite, users = [], listings = [], deals = [deal_AB12C], logs = []\<rparr>"

definition paid_db :: database where
  "paid_db = pending_db\<lparr>deals := [deal_AB12C\<lparr>Deal.status := ''paid''\<rparr>]\<rparr>"

definition admin_release :: AdminRelease where
  "admin_release = \<lparr>AdminRelease.trade_code = ''AB12C'', secret = ''p2p_secure_release_key_2024''\<rparr>"

definition wrong_release :: AdminRelease where
  "wrong_release = \<lparr>AdminRelease.trade_code = ''AB12C'', secret = ''letmein''\<rparr>"

definition confirm_AB12C :: PaymentConfirmation where
  "confirm_AB12C = \<lparr>PaymentConfirmation.trade_code = ''AB12C''\<rparr>"

text \<open>
  A paid deal of 0.07 USDT, with the commission the default configuration gives it.
\<close>

definition small_deal :: Deal where
  "small_deal =
     \<lparr>Deal.id = 1, listing_id = 1, buyer_id = 2, seller_id = 1,
      usdt_amount = float_of (7 / 100),
      etb_amount = fmul (float_of (7 / 100)) (Finite False 130),
      trade_code = ''SMALL'', escrow_wallet = ''TXxxxxxx'', status = ''paid'',
      commission_amount = fmul (float_of (7 / 100)) default_fraction\<rparr>"

definition small_db :: database where
  "small_db = \<lparr>engine = SQLite, users = [], listings = [], deals = [small_deal], logs = []\<rparr>"

definition small_release :: AdminRelease where
  "small_release = \<lparr>AdminRelease.trade_code = ''SMALL'', secret = ''p2p_secure_release_key_2024''\<rparr>"

definition seller_one :: User where
  "seller_one =
     \<lparr>User.id = 1, name = ''Seller'', telegram_username = ''seller_one'',
      user_type = ''seller'', verified = False\<rparr>"

definition buyer_two :: User where
  "buyer_two =
     \<lparr>User.id = 2, name = ''Buyer'', telegram_username = ''buyer_two'',
      user_type = ''buyer'', verified = False\<rparr>"

definition seller_listing :: Listing where
  "seller_listing =
     \<lparr>Listing.id = 1, user_id = 1, listing_type = ''sell'', amount = Finite False 500,
      rate = Finite False 130, payment_method = ''CBE'', contact = ''@seller_one'',
      status = ''active''\<rparr>"

text \<open>
  A database on SQLite with the seller and the listing, and no buyer.
\<close>

definition listing_db :: database where
  "listing_db =
     \<lparr>engine = SQLite, users = [seller_one], listings = [seller_listing], deals = [], logs = []\<rparr>"

text \<open>
  The same rows on PostgreSQL, and with the buyer registered.
\<close>

definition pg_listing_db :: database where
  "pg_listing_db = listing_db\<lparr>engine := PostgreSQL\<rparr>"

definition pg_buyer_db :: database where
  "pg_buyer_db = listing_db\<lparr>engine := PostgreSQL, users := [seller_one, buyer_two]\<rparr>"

definition seller_signup :: UserCreate where
  "seller_signup = \<lparr>UserCreate.name = ''Seller'', telegram_username = ''seller_one'', user_type = ''seller''\<rparr>"

definition sell_offer :: ListingCreate where
  "sell_offer =
     \<lparr>ListingCreate.listing_type = ''sell'', amount = Finite False 500, rate = Finite False 130,
      payment_method = ''CBE'', contact = ''@seller_one'', user_id = 1\<rparr>"

definition order_100 :: DealCreate where
  "order_100 = \<lparr>DealCreate.usdt_amount = Finite False 100, listing_id = 1, buyer_id = 2\<rparr>"

definition order_45 :: DealCreate where
  "order_45 = \<lparr>DealCreate.usdt_amount = Finite False 45, listing_id = 1, buyer_id = 2\<rparr>"

definition order_stranger :: DealCreate where
  "order_stranger = \<lparr>DealCreate.usdt_amount = Finite False 100, listing_id = 1, buyer_id = 999\<rparr>"

definition negative_order :: DealCreate where
  "negative_order = \<lparr>DealCreate.usdt_amount = Finite True 5, listing_id = 1, buyer_id = 2\<rparr>"

definition missing_listing_order :: DealCreate where
  "missing_listing_order = \<lparr>DealCreate.usdt_amount = Finite False 100, listing_id = 7, buyer_id = 2\<rparr>"

definition two_orders :: "request list" where
  "two_orders =
     [Create_user seller_signup, Create_listing sell_offer, Create_deal order_100, Create_deal order_100]"

definition repriced :: "Listing list" where
  "repriced = [seller_listing\<lparr>Listing.rate := Finite False 140\<rparr>]"

text \<open>
  The deals that \<open>create_deal\<close> builds for \<open>negative_order\<close> and for \<open>order_45\<close>.
\<close>

definition negative_deal :: Deal where
  "negative_deal =
     \<lparr>Deal.id = 1, listing_id = 1, buyer_id = 2, seller_id = 1,
      usdt_amount = Finite True 5, etb_amount = Finite True 650,
      trade_code = ''SSSSS'', escrow_wallet = ''TXxxxxxx'', status = ''pending'',
      commission_amount = Finite True (5404319552844595 / 72057594037927936)\<rparr>"

definition deal_45 :: Deal where
  "deal_45 =
     \<lparr>Deal.id = 1, listing_id = 1, buyer_id = 2, seller_id = 1,
      usdt_amount = Finite False 45, etb_amount = Finite False 5850,
      trade_code = ''SSSSS'', escrow_wallet = ''TXxxxxxx'', status = ''pending'',
      commission_amount = Finite False (6079859496950169 / 9007199254740992)\<rparr>"

text \<open>
  The database with the status of the listings numbered \<open>k\<close> set to \<open>s\<close>; no handler of
  the service does this, it only serves to compare databases.
\<close>

definition with_listing_status :: "int \<Rightarrow> string \<Rightarrow> database \<Rightarrow> database" where
  "with_listing_status k s db =
     db\<lparr>listings := map (\<lambda>x. if Listing.id x = k then x\<lparr>Listing.status := s\<rparr> else x) (listings db)\<rparr>"

text \<open>
  What PostgreSQL asks of the row that \<open>create_deal\<close> builds for a body and a listing,
  beyond what the handler has checked itself: the wallet fits its column, the three
  references fit 32 bits, and the buyer and the seller are users.
\<close>

definition storable :: "config \<Rightarrow> DealCreate \<Rightarrow> Listing \<Rightarrow> database \<Rightarrow> bool" where
  "storable cfg deal l db =
     (length (ESCROW_WALLET cfg) \<le> 100 \<and> int4 (DealCreate.listing_id deal) \<and>
      int4 (DealCreate.buyer_id deal) \<and> int4 (Listing.user_id l) \<and>
      DealCreate.buyer_id deal \<in> set (map User.id (users db)) \<and>
      Listing.user_id l \<in> set (map User.id (users db)))"

section \<open>Doubles\<close>

lemma pow2_powr: "pow2 e = 2 powr real_of_int e"
proof (cases "0 \<le> e")
  case True
  then have "2 powr real_of_int e = 2 powr real (nat e)" by simp
  also have "\<dots> = 2 ^ nat e" by (simp add: powr_realpow)
  finally show ?thesis
    using True by (simp add: pow2_def)
next
  case False
  then have "2 powr real_of_int e = 2 powr (- real (nat (- e)))" by simp
  also have "\<dots> = 1 / 2 powr real (nat (- e))" by (simp only: powr_minus_divide)
  also have "\<dots> = 1 / 2 ^ nat (- e)" by (simp add: powr_realpow)
  finally show ?thesis
    using False by (simp add: pow2_def)
qed

lemma pow2_pos: "0 < pow2 e"
  by (simp add: pow2_powr)

lemma pow2_mono: "e \<le> e' \<Longrightarrow> pow2 e \<le> pow2 e'"
  by (simp add: pow2_powr)

lemma pow2_nonneg_eq: "0 \<le> e \<Longrightarrow> pow2 e = 2 ^ nat e"
  by (simp add: pow2_def)

lemma pow2_neg_eq: "e \<le> 0 \<Longrightarrow> pow2 e = 1 / 2 ^ nat (- e)"
  by (cases "e = 0") (simp_all add: pow2_def)

text \<open>
  The exponent is the one its definition promises.
\<close>

lemma ilog2_bounds:
  assumes "0 < m"
  shows "pow2 (ilog2 m) \<le> m \<and> m < pow2 (ilog2 m + 1)"
proof (cases "1 \<le> m")
  case True
  let ?z = "\<lfloor>m\<rfloor>"
  let ?b = "bitlen ?z"
  have z: "0 < ?z" using True by simp
  from bitlen_bounds [OF z] have lo: "2 ^ nat (?b - 1) \<le> ?z" and hi: "?z < 2 ^ nat ?b"
    by simp_all
  have b: "1 \<le> ?b"
    using z by (simp add: bitlen_alt_def)
  have e: "ilog2 m = ?b - 1"
    using True by (simp add: ilog2_def)
  have "real_of_int (2 ^ nat (?b - 1)) \<le> real_of_int ?z"
    using lo by (simp only: of_int_le_iff)
  also have "real_of_int ?z \<le> m" by simp
  finally have "2 ^ nat (?b - 1) \<le> m" by simp
  then have first: "pow2 (?b - 1) \<le> m"
    using b by (simp add: pow2_nonneg_eq)
  have "?z + 1 \<le> 2 ^ nat ?b" using hi by simp
  then have "real_of_int (?z + 1) \<le> real_of_int (2 ^ nat ?b)"
    by (simp only: of_int_le_iff)
  then have le: "real_of_int ?z + 1 \<le> 2 ^ nat ?b" by simp
  have up: "m < real_of_int ?z + 1" by linarith
  from up le have "m < 2 ^ nat ?b" by (rule less_le_trans)
  then have "m < pow2 (?b - 1 + 1)"
    using b by (simp add: pow2_nonneg_eq)
  with first show ?thesis
    by (simp only: e)
next
  case False
  then have m1: "m < 1" by simp
  let ?c = "\<lceil>1 / m\<rceil>"
  let ?z = "?c - 1"
  let ?b = "bitlen ?z"
  have gt: "1 < 1 / m" using assms m1 by simp
  then have z: "0 < ?z" by linarith
  from bitlen_bounds [OF z] have lo: "2 ^ nat (?b - 1) \<le> ?z" and hi: "?z < 2 ^ nat ?b"
    by simp_all
  have b: "1 \<le> ?b"
    using z by (simp add: bitlen_alt_def)
  have e: "ilog2 m = - ?b"
    using False by (simp add: ilog2_def)
  have "?c \<le> 2 ^ nat ?b" using hi by simp
  then have "real_of_int ?c \<le> real_of_int (2 ^ nat ?b)"
    by (simp only: of_int_le_iff)
  then have cle: "real_of_int ?c \<le> 2 ^ nat ?b" by simp
  have "1 / m \<le> real_of_int ?c" by (rule le_of_int_ceiling)
  from this cle have "1 / m \<le> 2 ^ nat ?b"
    by (rule order_trans)
  then have "1 / 2 ^ nat ?b \<le> m"
    using assms by (simp add: field_simps)
  then have first: "pow2 (- ?b) \<le> m"
    using b by (simp add: pow2_neg_eq)
  have "real_of_int (2 ^ nat (?b - 1)) \<le> real_of_int ?z"
    using lo by (simp only: of_int_le_iff)
  then have zlo: "2 ^ nat (?b - 1) \<le> real_of_int ?z" by simp
  have "real_of_int ?z < 1 / m"
    by linarith
  with zlo have "2 ^ nat (?b - 1) < 1 / m"
    by (rule le_less_trans)
  then have "m < 1 / 2 ^ nat (?b - 1)"
    using assms by (simp add: field_simps)
  moreover have "pow2 (- ?b + 1) = 1 / 2 ^ nat (?b - 1)"
    using b by (simp add: pow2_neg_eq)
  ultimately have "m < pow2 (- ?b + 1)"
    by simp
  with first show ?thesis
    by (simp only: e)
qed

lemma ilog2_eqI:
  assumes "pow2 e \<le> m" and "m < pow2 (e + 1)"
  shows "ilog2 m = e"
proof -
  have m: "0 < m" using assms(1) pow2_pos [of e] by linarith
  from ilog2_bounds [OF m] have lo: "pow2 (ilog2 m) \<le> m" and hi: "m < pow2 (ilog2 m + 1)"
    by simp_all
  have "\<not> e + 1 \<le> ilog2 m"
  proof
    assume "e + 1 \<le> ilog2 m"
    then have "pow2 (e + 1) \<le> pow2 (ilog2 m)" by (rule pow2_mono)
    with lo assms(2) show False by linarith
  qed
  moreover have "\<not> ilog2 m + 1 \<le> e"
  proof
    assume "ilog2 m + 1 \<le> e"
    then have "pow2 (ilog2 m + 1) \<le> pow2 e" by (rule pow2_mono)
    with hi assms(1) show False by linarith
  qed
  ultimately show ?thesis by linarith
qed

text \<open>
  Rounding a magnitude whose exponent \<open>e\<close> is known and in the normal range: the result
  is the multiple of \<open>pow2 (e - 52)\<close> that \<open>rne\<close> picks.
\<close>

lemma round64_eval:
  assumes "pow2 e \<le> m" and "m < pow2 (e + 1)" and "- 1022 \<le> e"
    and "rne (m / pow2 (e - 52)) = n" and "of_int n * pow2 (e - 52) < pow2 1024"
  shows "round64 s m = Finite s (of_int n * pow2 (e - 52))"
proof -
  have m: "m \<noteq> 0" using assms(1) pow2_pos [of e] by linarith
  have "ilog2 m = e" using assms(1,2) by (rule ilog2_eqI)
  then have "max (ilog2 m) (- 1022) = e" using assms(3) by simp
  then show ?thesis
    using m assms(4,5) by (simp add: round64_def Let_def)
qed

text \<open>
  The computations of the scenarios.
\<close>

lemma default_fraction_eq:
  "ftruediv (COMMISSION_PERCENT default_config) (Finite False 100) = Inr default_fraction"
  using round64_eval [of "- 7" "3 / 200" 8646911284551352 False]
  by (simp add: default_config_def default_fraction_def pow2_def rne_def Let_def)

lemma mul_100_130: "fmul (Finite False 100) (Finite False 130) = Finite False 13000"
  using round64_eval [of 13 13000 "13000 * 2 ^ 39" False]
  by (simp add: pow2_def rne_def Let_def)

lemma mul_100_fraction: "fmul (Finite False 100) default_fraction = Finite False (3 / 2)"
  using round64_eval [of 0 "100 * 8646911284551352 / 2 ^ 59" 6755399441055744 False]
  by (simp add: default_fraction_def pow2_def rne_def Let_def)

lemma sub_100_commission: "fsub (Finite False 100) (Finite False (3 / 2)) = Finite False (197 / 2)"
  using round64_eval [of 6 "197 / 2" "197 * 2 ^ 45" False]
  by (simp add: pow2_def rne_def Let_def)

lemma mul_45_130: "fmul (Finite False 45) (Finite False 130) = Finite False 5850"
  using round64_eval [of 12 5850 "5850 * 2 ^ 40" False]
  by (simp add: pow2_def rne_def Let_def)

lemma mul_45_fraction:
  "fmul (Finite False 45) default_fraction = Finite False (6079859496950169 / 2 ^ 53)"
  using round64_eval [of "- 1" "45 * 8646911284551352 / 2 ^ 59" 6079859496950169 False]
  by (simp add: default_fraction_def pow2_def rne_def Let_def)

lemma mul_45_percent: "fmul (Finite False 45) (Finite False (3 / 2)) = Finite False (135 / 2)"
  using round64_eval [of 6 "135 / 2" "135 * 2 ^ 45" False]
  by (simp add: pow2_def rne_def Let_def)

lemma div_product_100:
  "ftruediv (Finite False (135 / 2)) (Finite False 100) = Inr (Finite False (6079859496950170 / 2 ^ 53))"
  using round64_eval [of "- 1" "135 / 200" 6079859496950170 False]
  by (simp add: pow2_def rne_def Let_def)

lemma float_of_0675: "float_of (45 * (3 / 2) / 100) = Finite False (6079859496950170 / 9007199254740992)"
  using round64_eval [of "- 1" "27 / 40" 6079859496950170 False]
  by (simp add: float_of_def pow2_def rne_def Let_def)

lemma mul_minus5_130: "fmul (Finite True 5) (Finite False 130) = Finite True 650"
  using round64_eval [of 9 650 "650 * 2 ^ 43" True]
  by (simp add: pow2_def rne_def Let_def)

lemma mul_minus5_fraction:
  "fmul (Finite True 5) default_fraction = Finite True (5404319552844595 / 2 ^ 56)"
  using round64_eval [of "- 4" "5 * 8646911284551352 / 2 ^ 59" 5404319552844595 True]
  by (simp add: default_fraction_def pow2_def rne_def Let_def)

lemma float_of_007: "float_of (7 / 100) = Finite False (1261007895663739 / 18014398509481984)"
  using round64_eval [of "- 4" "7 / 100" 5044031582654956 False]
  by (simp add: float_of_def pow2_def rne_def Let_def)

lemma mul_007_fraction:
  "fmul (Finite False (1261007895663739 / 18014398509481984)) default_fraction
     = Finite False (2421135159674379 / 2305843009213693952)"
  using round64_eval [of "- 10" "1261007895663739 / 18014398509481984 * (8646911284551352 / 2 ^ 59)" 4842270319348758 False]
  by (simp add: default_fraction_def pow2_def rne_def Let_def)

lemma sub_007_commission:
  "fsub (Finite False (1261007895663739 / 18014398509481984))
        (Finite False (2421135159674379 / 2305843009213693952))
     = Finite False (1242092777228783 / 18014398509481984)"
  using round64_eval [of "- 4" "1261007895663739 / 18014398509481984 - 2421135159674379 / 2305843009213693952" 4968371108915132 False]
  by (simp add: pow2_def rne_def Let_def)

section \<open>The generated codes\<close>

lemma alphabet_length: "length (ascii_uppercase @ digits) = 36"
  by (simp add: ascii_uppercase_def digits_def)

lemma alphabet_distinct: "distinct (ascii_uppercase @ digits)"
  by (simp add: ascii_uppercase_def digits_def)

lemma choices_length: "length (choices population k rnd pos) = k"
  by (simp add: choices_def)

lemma choices_subset:
  assumes "unit_interval rnd" and "population \<noteq> []"
  shows "set (choices population k rnd pos) \<subseteq> set population"
proof
  fix x
  assume "x \<in> set (choices population k rnd pos)"
  then obtain i where x: "x = population ! nat \<lfloor>rnd i * real (length population)\<rfloor>"
    by (auto simp: choices_def)
  have r: "0 \<le> rnd i" "rnd i < 1"
    using assms(1) by (simp_all add: unit_interval_def)
  have pos: "0 < real (length population)"
    using assms(2) by simp
  have "rnd i * real (length population) < real (length population)"
    using r(2) pos by simp
  then have "\<lfloor>rnd i * real (length population)\<rfloor> < int (length population)"
    by (simp add: floor_less_iff)
  moreover have "0 \<le> \<lfloor>rnd i * real (length population)\<rfloor>"
    using r(1) by simp
  ultimately have "nat \<lfloor>rnd i * real (length population)\<rfloor> < length population"
    by linarith
  then show "x \<in> set population"
    unfolding x by (rule nth_mem)
qed

text \<open>
  Claim C6. Whenever \<^verbatim>\<open>random()\<close> stays in its interval, the code drawn at any tape
  position has exactly 5 characters, each of them one of the 36 distinct symbols
  \<^verbatim>\<open>A\<close>-\<^verbatim>\<open>Z\<close>, \<^verbatim>\<open>0\<close>-\<^verbatim>\<open>9\<close>.
\<close>

theorem generate_trade_code_shape:
  assumes "unit_interval rnd"
  shows "length (fst (generate_trade_code rnd pos)) = 5 \<and>
         set (fst (generate_trade_code rnd pos)) \<subseteq> set (ascii_uppercase @ digits) \<and>
         length (ascii_uppercase @ digits) = 36 \<and> distinct (ascii_uppercase @ digits)"
proof -
  have ne: "ascii_uppercase @ digits \<noteq> []"
    by (simp add: ascii_uppercase_def)
  have len: "length (fst (generate_trade_code rnd pos)) = 5"
    by (simp add: generate_trade_code_def choices_length)
  have sub: "set (fst (generate_trade_code rnd pos)) \<subseteq> set (ascii_uppercase @ digits)"
    using choices_subset [OF assms ne, of 5 pos]
    by (simp only: generate_trade_code_def fst_conv)
  show ?thesis
    using len sub alphabet_length alphabet_distinct by blast
qed

lemma half_tape_unit: "unit_interval half_tape"
  by (simp add: unit_interval_def half_tape_def)

lemma gen_half: "generate_trade_code half_tape 0 = (''SSSSS'', 5)"
  by (simp add: generate_trade_code_def choices_def upt_rec half_tape_def ascii_uppercase_def digits_def)

theorem generate_trade_code_shape_witness:
  "unit_interval half_tape \<and> fst (generate_trade_code half_tape 0) = ''SSSSS'' \<and>
   length (fst (generate_trade_code half_tape 0)) = 5 \<and>
   set (fst (generate_trade_code half_tape 0)) \<subseteq> set (ascii_uppercase @ digits)"
  using generate_trade_code_shape [OF half_tape_unit, of 0] half_tape_unit gen_half
  by simp

section \<open>Payment confirmation and release\<close>

lemma remove_hash_Cons: "remove_hash (CHR ''#'' # code) = code"
  by (simp add: remove_hash_def startswith_def)

lemma remove_hash_other: "\<not> startswith code ''#'' \<Longrightarrow> remove_hash code = code"
  by (simp add: remove_hash_def)

lemma find_set_status:
  "find (\<lambda>d. Deal.trade_code d = c) (set_status k s ds) =
     map_option (\<lambda>d. if Deal.id d = k then d\<lparr>Deal.status := s\<rparr> else d)
       (find (\<lambda>d. Deal.trade_code d = c) ds)"
  by (induction ds) (simp_all add: set_status_def)

lemma confirm_payment_not_pending:
  "find (\<lambda>d. Deal.trade_code d = remove_hash (PaymentConfirmation.trade_code c)) (deals db) = Some deal
   \<Longrightarrow> Deal.status deal \<noteq> ''pending''
   \<Longrightarrow> confirm_payment c db = (Inl (HTTPException 400 ''Deal is not in pending status''), db)"
  by (simp add: confirm_payment_def)

lemma confirm_payment_pending:
  assumes "find (\<lambda>d. Deal.trade_code d = remove_hash (PaymentConfirmation.trade_code c)) (deals db) = Some deal"
    and "Deal.status deal = ''pending''"
  shows "fst (confirm_payment c db) =
           Inr \<lparr>PaymentConfirmed.message = ''Payment confirmed successfully'',
                trade_code = Deal.trade_code deal\<rparr>"
    and "find (\<lambda>d. Deal.trade_code d = remove_hash (PaymentConfirmation.trade_code c))
           (deals (snd (confirm_payment c db))) = Some (deal\<lparr>Deal.status := ''paid''\<rparr>)"
  using assms by (simp_all add: confirm_payment_def Let_def find_set_status)

text \<open>
  Claim C1. When the normalised code finds a deal, \<open>confirm_payment\<close> succeeds exactly
  when that deal is pending: it then answers with the deal's code, the deal is found
  afterwards with status paid, and the same call repeated on the resulting database
  fails with status 400 (the specification's InvalidState) and changes nothing. When
  the deal is not pending the call fails with status 400 and the database is the one
  it was given.
\<close>

theorem confirm_payment_only_pending:
  assumes "find (\<lambda>d. Deal.trade_code d = remove_hash (PaymentConfirmation.trade_code c)) (deals db)
             = Some deal"
  shows "(Deal.status deal = ''pending'' \<longrightarrow>
            fst (confirm_payment c db) =
              Inr \<lparr>PaymentConfirmed.message = ''Payment confirmed successfully'',
                   trade_code = Deal.trade_code deal\<rparr> \<and>
            find (\<lambda>d. Deal.trade_code d = remove_hash (PaymentConfirmation.trade_code c))
              (deals (snd (confirm_payment c db))) = Some (deal\<lparr>Deal.status := ''paid''\<rparr>) \<and>
            confirm_payment c (snd (confirm_payment c db)) =
              (Inl (HTTPException 400 ''Deal is not in pending status''), snd (confirm_payment c db))) \<and>
         (Deal.status deal \<noteq> ''pending'' \<longrightarrow>
            confirm_payment c db = (Inl (HTTPException 400 ''Deal is not in pending status''), db))"
proof (intro conjI impI)
  assume p: "Deal.status deal = ''pending''"
  show "fst (confirm_payment c db) =
          Inr \<lparr>PaymentConfirmed.message = ''Payment confirmed successfully'',
               trade_code = Deal.trade_code deal\<rparr>"
    by (rule confirm_payment_pending(1) [OF assms p])
  have after: "find (\<lambda>d. Deal.trade_code d = remove_hash (PaymentConfirmation.trade_code c))
       (deals (snd (confirm_payment c db))) = Some (deal\<lparr>Deal.status := ''paid''\<rparr>)"
    by (rule confirm_payment_pending(2) [OF assms p])
  then show "find (\<lambda>d. Deal.trade_code d = remove_hash (PaymentConfirmation.trade_code c))
       (deals (snd (confirm_payment c db))) = Some (deal\<lparr>Deal.status := ''paid''\<rparr>)" .
  show "confirm_payment c (snd (confirm_payment c db)) =
          (Inl (HTTPException 400 ''Deal is not in pending status''), snd (confirm_payment c db))"
    by (rule confirm_payment_not_pending [OF after]) simp
next
  assume "Deal.status deal \<noteq> ''pending''"
  then show "confirm_payment c db = (Inl (HTTPException 400 ''Deal is not in pending status''), db)"
    by (rule confirm_payment_not_pending [OF assms])
qed

lemma find_pending: "find (\<lambda>d. Deal.trade_code d = remove_hash (PaymentConfirmation.trade_code \<lparr>PaymentConfirmation.trade_code = ''AB12C''\<rparr>)) (deals pending_db) = Some deal_AB12C"
  by (simp add: pending_db_def deal_AB12C_def remove_hash_def startswith_def)

theorem confirm_payment_only_pending_witness:
  "confirm_payment \<lparr>PaymentConfirmation.trade_code = ''AB12C''\<rparr> pending_db =
     (Inr \<lparr>PaymentConfirmed.message = ''Payment confirmed successfully'', trade_code = ''AB12C''\<rparr>,
      pending_db\<lparr>deals := [deal_AB12C\<lparr>Deal.status := ''paid''\<rparr>],
                 logs := [\<lparr>Log.id = 1, deal_id = 1, action = ''Payment confirmed'',
                           notes = [Str ''Seller confirmed ETB payment received'']\<rparr>]\<rparr>) \<and>
   fst (confirm_payment \<lparr>PaymentConfirmation.trade_code = ''AB12C''\<rparr>
          (snd (confirm_payment \<lparr>PaymentConfirmation.trade_code = ''AB12C''\<rparr> pending_db))) =
     Inl (HTTPException 400 ''Deal is not in pending status'')"
proof -
  have run: "confirm_payment \<lparr>PaymentConfirmation.trade_code = ''AB12C''\<rparr> pending_db =
     (Inr \<lparr>PaymentConfirmed.message = ''Payment confirmed successfully'', trade_code = ''AB12C''\<rparr>,
      pending_db\<lparr>deals := [deal_AB12C\<lparr>Deal.status := ''paid''\<rparr>],
                 logs := [\<lparr>Log.id = 1, deal_id = 1, action = ''Payment confirmed'',
                           notes = [Str ''Seller confirmed ETB payment received'']\<rparr>]\<rparr>)"
    by (simp add: confirm_payment_def pending_db_def deal_AB12C_def remove_hash_def
        startswith_def set_status_def next_id_def Let_def)
  have st: "Deal.status deal_AB12C = ''pending''"
    by (simp add: deal_AB12C_def)
  have "confirm_payment \<lparr>PaymentConfirmation.trade_code = ''AB12C''\<rparr>
          (snd (confirm_payment \<lparr>PaymentConfirmation.trade_code = ''AB12C''\<rparr> pending_db)) =
        (Inl (HTTPException 400 ''Deal is not in pending status''),
         snd (confirm_payment \<lparr>PaymentConfirmation.trade_code = ''AB12C''\<rparr> pending_db))"
    using confirm_payment_only_pending [OF find_pending] st by blast
  then have twice: "fst (confirm_payment \<lparr>PaymentConfirmation.trade_code = ''AB12C''\<rparr>
          (snd (confirm_payment \<lparr>PaymentConfirmation.trade_code = ''AB12C''\<rparr> pending_db))) =
     Inl (HTTPException 400 ''Deal is not in pending status'')"
    by (simp only: fst_conv)
  from run twice show ?thesis
    by (rule conjI)
qed

lemma release_funds_missing:
  "AdminRelease.secret r = RELEASE_SECRET cfg
   \<Longrightarrow> find (\<lambda>d. Deal.trade_code d = remove_hash (AdminRelease.trade_code r)) (deals db) = None
   \<Longrightarrow> release_funds cfg r db = (Inl (HTTPException 404 ''Deal not found''), db)"
  by (simp add: release_funds_def)

lemma release_funds_not_paid:
  "AdminRelease.secret r = RELEASE_SECRET cfg
   \<Longrightarrow> find (\<lambda>d. Deal.trade_code d = remove_hash (AdminRelease.trade_code r)) (deals db) = Some deal
   \<Longrightarrow> Deal.status deal \<noteq> ''paid''
   \<Longrightarrow> release_funds cfg r db = (Inl (HTTPException 400 ''Deal payment not confirmed''), db)"
  by (simp add: release_funds_def)

lemma release_funds_paid:
  assumes "AdminRelease.secret r = RELEASE_SECRET cfg"
    and "find (\<lambda>d. Deal.trade_code d = remove_hash (AdminRelease.trade_code r)) (deals db) = Some deal"
    and "Deal.status deal = ''paid''"
  shows "fst (release_funds cfg r db) =
           Inr \<lparr>FundsReleased.message = ''Funds released successfully'',
                trade_code = Deal.trade_code deal,
                amount_released = fsub (Deal.usdt_amount deal) (Deal.commission_amount deal),
                commission = Deal.commission_amount deal\<rparr>"
    and "find (\<lambda>d. Deal.trade_code d = remove_hash (AdminRelease.trade_code r))
           (deals (snd (release_funds cfg r db))) = Some (deal\<lparr>Deal.status := ''released''\<rparr>)"
  using assms by (simp_all add: release_funds_def Let_def find_set_status)

text \<open>
  Claim C2. With the configured secret, \<open>release_funds\<close> fails with 404 when the
  normalised code finds no deal, fails with 400 when the deal found is not paid, both
  times leaving the database as it was, and otherwise succeeds: the receipt holds the
  deal's code, the double \<open>usdt_amount - commission_amount\<close> as the amount released and
  the commission, and the deal is found afterwards with status released.
\<close>

theorem release_funds_only_paid:
  assumes "AdminRelease.secret r = RELEASE_SECRET cfg"
  shows "(find (\<lambda>d. Deal.trade_code d = remove_hash (AdminRelease.trade_code r)) (deals db) = None \<longrightarrow>
            release_funds cfg r db = (Inl (HTTPException 404 ''Deal not found''), db)) \<and>
         (\<forall>deal. find (\<lambda>d. Deal.trade_code d = remove_hash (AdminRelease.trade_code r)) (deals db)
                   = Some deal \<longrightarrow>
            (Deal.status deal \<noteq> ''paid'' \<longrightarrow>
               release_funds cfg r db = (Inl (HTTPException 400 ''Deal payment not confirmed''), db)) \<and>
            (Deal.status deal = ''paid'' \<longrightarrow>
               fst (release_funds cfg r db) =
                 Inr \<lparr>FundsReleased.message = ''Funds released successfully'',
                      trade_code = Deal.trade_code deal,
                      amount_released = fsub (Deal.usdt_amount deal) (Deal.commission_amount deal),
                      commission = Deal.commission_amount deal\<rparr> \<and>
               find (\<lambda>d. Deal.trade_code d = remove_hash (AdminRelease.trade_code r))
                 (deals (snd (release_funds cfg r db))) = Some (deal\<lparr>Deal.status := ''released''\<rparr>)))"
  using release_funds_missing [OF assms] release_funds_not_paid [OF assms]
    release_funds_paid [OF assms]
  by blast

lemma release_scenario:
  "release_funds default_config admin_release paid_db =
     (Inr \<lparr>FundsReleased.message = ''Funds released successfully'', trade_code = ''AB12C'',
           amount_released = Finite False (197 / 2), commission = Finite False (3 / 2)\<rparr>,
      paid_db\<lparr>deals := [deal_AB12C\<lparr>Deal.status := ''released''\<rparr>],
              logs := [\<lparr>Log.id = 1, deal_id = 1, action = ''Funds released'',
                        notes = [Str ''Admin released '', Num (Finite False (197 / 2)),
                                 Str '' USDT to buyer'']\<rparr>]\<rparr>)"
  by (simp add: release_funds_def admin_release_def default_config_def paid_db_def
      pending_db_def deal_AB12C_def remove_hash_def startswith_def set_status_def
      next_id_def Let_def sub_100_commission del: fsub.simps)

lemma release_small:
  "fst (release_funds default_config small_release small_db) =
     Inr \<lparr>FundsReleased.message = ''Funds released successfully'', trade_code = ''SMALL'',
          amount_released = Finite False (1242092777228783 / 18014398509481984),
          commission = Finite False (2421135159674379 / 2305843009213693952)\<rparr>"
  by (simp add: release_funds_def small_release_def default_config_def small_db_def
      small_deal_def remove_hash_def startswith_def Let_def float_of_007 mul_007_fraction
      sub_007_commission del: fsub.simps fmul.simps)

text \<open>
  The receipt of the 0.07 USDT deal holds the double 0.06895000000000001, which is not
  the exact difference of the two stored doubles.
\<close>

lemma release_small_rounds:
  "(1242092777228783 / 18014398509481984 :: real) \<noteq>
     1261007895663739 / 18014398509481984 - 2421135159674379 / 2305843009213693952"
  by simp

theorem release_funds_only_paid_witness:
  "AdminRelease.secret admin_release = RELEASE_SECRET default_config \<and>
   release_funds default_config admin_release paid_db =
     (Inr \<lparr>FundsReleased.message = ''Funds released successfully'', trade_code = ''AB12C'',
           amount_released = Finite False (197 / 2), commission = Finite False (3 / 2)\<rparr>,
      paid_db\<lparr>deals := [deal_AB12C\<lparr>Deal.status := ''released''\<rparr>],
              logs := [\<lparr>Log.id = 1, deal_id = 1, action = ''Funds released'',
                        notes = [Str ''Admin released '', Num (Finite False (197 / 2)),
                                 Str '' USDT to buyer'']\<rparr>]\<rparr>) \<and>
   release_funds default_config admin_release pending_db =
     (Inl (HTTPException 400 ''Deal payment not confirmed''), pending_db) \<and>
   fst (release_funds default_config small_release small_db) =
     Inr \<lparr>FundsReleased.message = ''Funds released successfully'', trade_code = ''SMALL'',
          amount_released = Finite False (1242092777228783 / 18014398509481984),
          commission = Finite False (2421135159674379 / 2305843009213693952)\<rparr>"
proof -
  have s: "AdminRelease.secret admin_release = RELEASE_SECRET default_config"
    by (simp add: admin_release_def default_config_def)
  have f: "find (\<lambda>d. Deal.trade_code d = remove_hash (AdminRelease.trade_code admin_release))
             (deals pending_db) = Some deal_AB12C"
    by (simp add: admin_release_def pending_db_def deal_AB12C_def remove_hash_def startswith_def)
  have st: "Deal.status deal_AB12C \<noteq> ''paid''"
    by (simp add: deal_AB12C_def)
  from release_funds_only_paid [OF s, of pending_db] f st
  have "release_funds default_config admin_release pending_db =
          (Inl (HTTPException 400 ''Deal payment not confirmed''), pending_db)"
    by blast
  with s release_scenario release_small show ?thesis
    by (intro conjI)
qed

text \<open>
  Claim C3. With any secret other than the configured one, \<open>release_funds\<close> fails with
  403 whatever the trade code is, and the database, so the status of every deal, is
  unchanged.
\<close>

theorem release_funds_wrong_secret:
  assumes "AdminRelease.secret r \<noteq> RELEASE_SECRET cfg"
  shows "release_funds cfg r db = (Inl (HTTPException 403 ''Invalid admin secret''), db)"
  using assms by (simp add: release_funds_def)

theorem release_funds_wrong_secret_witness:
  "AdminRelease.secret wrong_release \<noteq> RELEASE_SECRET default_config \<and>
   release_funds default_config wrong_release paid_db =
     (Inl (HTTPException 403 ''Invalid admin secret''), paid_db) \<and>
   map Deal.status (deals paid_db) = [''paid'']"
proof -
  have s: "AdminRelease.secret wrong_release \<noteq> RELEASE_SECRET default_config"
    by (simp add: wrong_release_def default_config_def)
  have d: "map Deal.status (deals paid_db) = [''paid'']"
    by (simp add: paid_db_def pending_db_def)
  show ?thesis
    using release_funds_wrong_secret [OF s, of paid_db] s d by simp
qed

text \<open>
  Claim C7. Normalisation removes one leading \<^verbatim>\<open>#\<close> and nothing more, and leaves a code
  without it alone. Both handlers look the deal up under the normalised code: they
  answer 404 exactly when no deal carries it, and a successful answer names it.
\<close>

theorem leading_hash_removed:
  "remove_hash (CHR ''#'' # code) = code \<and>
   (\<not> startswith code ''#'' \<longrightarrow> remove_hash code = code) \<and>
   (fst (confirm_payment c db) = Inl (HTTPException 404 ''Deal not found'') \<longleftrightarrow>
      find (\<lambda>d. Deal.trade_code d = remove_hash (PaymentConfirmation.trade_code c)) (deals db) = None) \<and>
   (\<forall>ack. fst (confirm_payment c db) = Inr ack \<longrightarrow>
      PaymentConfirmed.trade_code ack = remove_hash (PaymentConfirmation.trade_code c)) \<and>
   (AdminRelease.secret r = RELEASE_SECRET cfg \<longrightarrow>
      (fst (release_funds cfg r db) = Inl (HTTPException 404 ''Deal not found'') \<longleftrightarrow>
         find (\<lambda>d. Deal.trade_code d = remove_hash (AdminRelease.trade_code r)) (deals db) = None) \<and>
      (\<forall>receipt. fst (release_funds cfg r db) = Inr receipt \<longrightarrow>
         FundsReleased.trade_code receipt = remove_hash (AdminRelease.trade_code r)))"
proof (intro conjI impI allI)
  show "remove_hash (CHR ''#'' # code) = code"
    by (rule remove_hash_Cons)
  show "remove_hash code = code" if "\<not> startswith code ''#''"
    using that by (rule remove_hash_other)
  show "fst (confirm_payment c db) = Inl (HTTPException 404 ''Deal not found'') \<longleftrightarrow>
      find (\<lambda>d. Deal.trade_code d = remove_hash (PaymentConfirmation.trade_code c)) (deals db) = None"
    by (cases "find (\<lambda>d. Deal.trade_code d = remove_hash (PaymentConfirmation.trade_code c)) (deals db)")
      (simp_all add: confirm_payment_def Let_def)
  show "PaymentConfirmed.trade_code ack = remove_hash (PaymentConfirmation.trade_code c)"
    if "fst (confirm_payment c db) = Inr ack" for ack
    using that
    by (cases "find (\<lambda>d. Deal.trade_code d = remove_hash (PaymentConfirmation.trade_code c)) (deals db)")
      (auto simp: confirm_payment_def Let_def find_Some_iff split: if_splits)
  show "fst (release_funds cfg r db) = Inl (HTTPException 404 ''Deal not found'') \<longleftrightarrow>
         find (\<lambda>d. Deal.trade_code d = remove_hash (AdminRelease.trade_code r)) (deals db) = None"
    if "AdminRelease.secret r = RELEASE_SECRET cfg"
    using that
    by (cases "find (\<lambda>d. Deal.trade_code d = remove_hash (AdminRelease.trade_code r)) (deals db)")
      (simp_all add: release_funds_def Let_def)
  show "FundsReleased.trade_code receipt = remove_hash (AdminRelease.trade_code r)"
    if "AdminRelease.secret r = RELEASE_SECRET cfg" "fst (release_funds cfg r db) = Inr receipt"
    for receipt
    using that
    by (cases "find (\<lambda>d. Deal.trade_code d = remove_hash (AdminRelease.trade_code r)) (deals db)")
      (auto simp: release_funds_def Let_def find_Some_iff split: if_splits)
qed

theorem leading_hash_removed_witness:
  "remove_hash ''#AB12C'' = ''AB12C'' \<and> remove_hash ''AB12C'' = ''AB12C'' \<and>
   remove_hash ''##AB12C'' = ''#AB12C'' \<and>
   fst (confirm_payment \<lparr>PaymentConfirmation.trade_code = ''#AB12C''\<rparr> pending_db) =
     Inr \<lparr>PaymentConfirmed.message = ''Payment confirmed successfully'', trade_code = ''AB12C''\<rparr> \<and>
   map Deal.status (deals (snd (confirm_payment \<lparr>PaymentConfirmation.trade_code = ''#AB12C''\<rparr> pending_db)))
     = [''paid''] \<and>
   fst (confirm_payment \<lparr>PaymentConfirmation.trade_code = ''##AB12C''\<rparr> pending_db) =
     Inl (HTTPException 404 ''Deal not found'')"
proof -
  have n: "\<not> startswith ''AB12C'' ''#''"
    by (simp add: startswith_def)
  have a: "fst (confirm_payment \<lparr>PaymentConfirmation.trade_code = ''#AB12C''\<rparr> pending_db) =
     Inr \<lparr>PaymentConfirmed.message = ''Payment confirmed successfully'', trade_code = ''AB12C''\<rparr>"
    by (simp add: confirm_payment_def pending_db_def deal_AB12C_def remove_hash_def
        startswith_def Let_def)
  have b: "map Deal.status (deals (snd (confirm_payment \<lparr>PaymentConfirmation.trade_code = ''#AB12C''\<rparr> pending_db)))
     = [''paid'']"
    by (simp add: confirm_payment_def pending_db_def deal_AB12C_def remove_hash_def
        startswith_def Let_def set_status_def)
  have c: "find (\<lambda>d. Deal.trade_code d = ''#AB12C'') (deals pending_db) = None"
    by (simp add: pending_db_def deal_AB12C_def)
  show ?thesis
    using leading_hash_removed [of "''AB12C''" "\<lparr>PaymentConfirmation.trade_code = ''##AB12C''\<rparr>" pending_db]
      leading_hash_removed [of "''#AB12C''"] n a b c
    by simp
qed

section \<open>Deal creation\<close>

text \<open>
  A code the loop returns is carried by no deal of the table it was checked against.
\<close>

lemma unique_trade_code_fresh:
  assumes "unique_trade_code rnd ds cp = Some r"
  shows "find (\<lambda>d. Deal.trade_code d = fst r) ds = None"
proof (rule unique_trade_code.raw_induct
    [where P = "\<lambda>rnd ds cp r. find (\<lambda>d. Deal.trade_code d = fst r) ds = None", OF _ assms])
  fix loop :: "(nat \<Rightarrow> real) \<Rightarrow> Deal list \<Rightarrow> string \<times> nat \<Rightarrow> (string \<times> nat) option"
    and rnd ds cp r
  assume IH: "\<And>rnd ds cp r. loop rnd ds cp = Some r
                \<Longrightarrow> find (\<lambda>d. Deal.trade_code d = fst r) ds = None"
    and eq: "(if find (\<lambda>d. Deal.trade_code d = fst cp) ds \<noteq> None
              then loop rnd ds (generate_trade_code rnd (snd cp)) else Some cp) = Some r"
  show "find (\<lambda>d. Deal.trade_code d = fst r) ds = None"
  proof (cases "find (\<lambda>d. Deal.trade_code d = fst cp) ds = None")
    case True
    with eq show ?thesis by simp
  next
    case False
    with eq have "loop rnd ds (generate_trade_code rnd (snd cp)) = Some r"
      by simp
    then show ?thesis by (rule IH)
  qed
qed

lemma generate_trade_code_snd: "snd (generate_trade_code rnd pos) = pos + 5"
  by (simp add: generate_trade_code_def)

text \<open>
  The loop returns as soon as some draw, the \<open>n\<close>-th after the current one, is a code that
  no deal carries.
\<close>

lemma unique_trade_code_returns:
  assumes "find (\<lambda>d. Deal.trade_code d = fst (generate_trade_code rnd (pos + 5 * n))) ds = None"
  shows "\<exists>r. unique_trade_code rnd ds (generate_trade_code rnd pos) = Some r"
  using assms
proof (induction n arbitrary: pos)
  case 0
  then show ?case
    by (subst unique_trade_code.simps) simp
next
  case (Suc n)
  show ?case
  proof (cases "find (\<lambda>d. Deal.trade_code d = fst (generate_trade_code rnd pos)) ds = None")
    case True
    then show ?thesis
      by (subst unique_trade_code.simps) simp
  next
    case False
    from Suc.prems
    have "find (\<lambda>d. Deal.trade_code d = fst (generate_trade_code rnd ((pos + 5) + 5 * n))) ds = None"
      by (simp add: add.assoc)
    then obtain r where "unique_trade_code rnd ds (generate_trade_code rnd (pos + 5)) = Some r"
      using Suc.IH by blast
    with False show ?thesis
      by (subst unique_trade_code.simps) (simp add: generate_trade_code_snd)
  qed
qed

lemma generate_trade_code_length: "length (fst (generate_trade_code rnd pos)) = 5"
  by (simp add: generate_trade_code_def choices_length)

lemma unique_trade_code_length:
  assumes "unique_trade_code rnd ds cp = Some r" and "length (fst cp) = 5"
  shows "length (fst r) = 5"
proof -
  have "length (fst cp) = 5 \<longrightarrow> length (fst r) = 5"
  proof (rule unique_trade_code.raw_induct
      [where P = "\<lambda>rnd ds cp r. length (fst cp) = 5 \<longrightarrow> length (fst r) = 5", OF _ assms(1)])
    fix loop :: "(nat \<Rightarrow> real) \<Rightarrow> Deal list \<Rightarrow> string \<times> nat \<Rightarrow> (string \<times> nat) option"
      and rnd ds cp r
    assume IH: "\<And>rnd ds cp r. loop rnd ds cp = Some r
                  \<Longrightarrow> length (fst cp) = 5 \<longrightarrow> length (fst r) = 5"
      and eq: "(if find (\<lambda>d. Deal.trade_code d = fst cp) ds \<noteq> None
                then loop rnd ds (generate_trade_code rnd (snd cp)) else Some cp) = Some r"
    show "length (fst cp) = 5 \<longrightarrow> length (fst r) = 5"
    proof (cases "find (\<lambda>d. Deal.trade_code d = fst cp) ds = None")
      case True
      with eq show ?thesis by auto
    next
      case False
      with eq have "loop rnd ds (generate_trade_code rnd (snd cp)) = Some r"
        by simp
      from IH [OF this] show ?thesis
        by (simp add: generate_trade_code_length)
    qed
  qed
  with assms(2) show ?thesis by simp
qed

text \<open>
  Dividing by 100 never raises.
\<close>

lemma ftruediv_100: "\<exists>fraction. ftruediv x (Finite False 100) = Inr fraction"
  by (cases x) simp_all

lemma create_deal_no_listing:
  "find (\<lambda>l. Listing.id l = DealCreate.listing_id deal) (listings db) = None
   \<Longrightarrow> create_deal cfg rnd pos deal db = Some (Inl (HTTPException 404 ''Listing not found''), db, pos)"
  by (simp add: create_deal_def)

text \<open>
  The two ways a creation ends once the listing is found and a code is drawn.
\<close>

lemma create_deal_row:
  assumes "find (\<lambda>l. Listing.id l = DealCreate.listing_id deal) (listings db) = Some l"
    and "unique_trade_code rnd (deals db) (generate_trade_code rnd pos) = Some (code, pos')"
    and "ftruediv (COMMISSION_PERCENT cfg) (Finite False 100) = Inr fraction"
    and "deal_violation db (new_deal cfg deal db l code fraction) = None"
  shows "create_deal cfg rnd pos deal db =
     Some (Inr (new_deal cfg deal db l code fraction),
           db\<lparr>deals := deals db @ [new_deal cfg deal db l code fraction],
              logs := logs db @ [new_log deal db (new_deal cfg deal db l code fraction) code]\<rparr>, pos')"
  using assms by (simp add: create_deal_def Let_def del: ftruediv.simps)

lemma create_deal_rejected:
  assumes "find (\<lambda>l. Listing.id l = DealCreate.listing_id deal) (listings db) = Some l"
    and "unique_trade_code rnd (deals db) (generate_trade_code rnd pos) = Some (code, pos')"
    and "ftruediv (COMMISSION_PERCENT cfg) (Finite False 100) = Inr fraction"
    and "deal_violation db (new_deal cfg deal db l code fraction) = Some e"
  shows "create_deal cfg rnd pos deal db = Some (Inl e, db, pos')"
  using assms by (simp add: create_deal_def Let_def del: ftruediv.simps)

lemma create_deal_cases:
  assumes "create_deal cfg rnd pos deal db = Some (res, db', pos')"
  shows "(\<exists>e. res = Inl e \<and> db' = db) \<or>
         (\<exists>l code fraction.
            res = Inr (new_deal cfg deal db l code fraction) \<and>
            find (\<lambda>l. Listing.id l = DealCreate.listing_id deal) (listings db) = Some l \<and>
            ftruediv (COMMISSION_PERCENT cfg) (Finite False 100) = Inr fraction \<and>
            db' = db\<lparr>deals := deals db @ [new_deal cfg deal db l code fraction],
                     logs := logs db @ [new_log deal db (new_deal cfg deal db l code fraction) code]\<rparr> \<and>
            find (\<lambda>x. Deal.trade_code x = code) (deals db) = None)"
proof (cases "find (\<lambda>l. Listing.id l = DealCreate.listing_id deal) (listings db)")
  case None
  from assms create_deal_no_listing [OF None, of cfg rnd pos] show ?thesis
    by auto
next
  case l: (Some l)
  show ?thesis
  proof (cases "unique_trade_code rnd (deals db) (generate_trade_code rnd pos)")
    case None
    with l assms show ?thesis
      by (simp add: create_deal_def)
  next
    case (Some r)
    obtain code p where r: "r = (code, p)"
      by (cases r)
    from unique_trade_code_fresh [OF Some]
    have fresh: "find (\<lambda>x. Deal.trade_code x = code) (deals db) = None"
      by (simp add: r)
    from ftruediv_100 obtain fraction where
      f: "ftruediv (COMMISSION_PERCENT cfg) (Finite False 100) = Inr fraction"
      by blast
    show ?thesis
    proof (cases "deal_violation db (new_deal cfg deal db l code fraction)")
      case None
      from create_deal_row [OF l Some [unfolded r] f None] assms l f fresh show ?thesis
        by auto
    next
      case (Some e)
      from create_deal_rejected [OF l \<open>unique_trade_code _ _ _ = Some r\<close> [unfolded r] f Some] assms
      show ?thesis
        by auto
    qed
  qed
qed

lemma new_deal_cong:
  assumes "deals db' = deals db" and "Listing.user_id l' = Listing.user_id l"
    and "Listing.rate l' = Listing.rate l"
  shows "new_deal cfg deal db' l' code fraction = new_deal cfg deal db l code fraction"
  using assms by (simp add: new_deal_def)

text \<open>
  When the engine takes the row.
\<close>

lemma find_listing_id:
  assumes "find (\<lambda>l. Listing.id l = k) ls = Some l"
  shows "k \<in> set (map Listing.id ls)"
  using assms by (auto simp: find_Some_iff)

lemma deal_violation_SQLite: "engine db = SQLite \<Longrightarrow> deal_violation db row = None"
  by (simp add: deal_violation_def)

lemma deal_violation_storable:
  assumes "find (\<lambda>l. Listing.id l = DealCreate.listing_id deal) (listings db) = Some l"
    and "storable cfg deal l db" and "length code = 5"
  shows "deal_violation db (new_deal cfg deal db l code fraction) = None"
  using assms(2,3) find_listing_id [OF assms(1)]
  by (simp add: deal_violation_def storable_def new_deal_def Let_def split: engine.splits)

lemma deal_violation_no_buyer:
  assumes "engine db = PostgreSQL"
    and "DealCreate.buyer_id deal \<notin> set (map User.id (users db))"
  shows "deal_violation db (new_deal cfg deal db l code fraction) = Some DataError \<or>
         deal_violation db (new_deal cfg deal db l code fraction) = Some IntegrityError"
  using assms by (simp add: deal_violation_def new_deal_def Let_def)

lemma accepted:
  assumes "find (\<lambda>l. Listing.id l = DealCreate.listing_id deal) (listings db) = Some l"
    and "engine db = SQLite \<or> storable cfg deal l db" and "length code = 5"
  shows "deal_violation db (new_deal cfg deal db l code fraction) = None"
  using assms deal_violation_SQLite deal_violation_storable by blast

lemma gen_scenario: "generate_trade_code scenario_tape 0 = (''AB12C'', 5)"
  by (simp add: generate_trade_code_def choices_def upt_rec scenario_tape_def
      ascii_uppercase_def digits_def)

lemma gen_colliding:
  "generate_trade_code colliding_tape 0 = (''AAAAA'', 5)"
  "generate_trade_code colliding_tape 5 = (''AAAAA'', 10)"
  "generate_trade_code colliding_tape 10 = (''SSSSS'', 15)"
  by (simp_all add: generate_trade_code_def choices_def upt_rec colliding_tape_def
      ascii_uppercase_def digits_def)

lemma find_seller_listing:
  "find (\<lambda>l. Listing.id l = DealCreate.listing_id order_100) (listings listing_db) = Some seller_listing"
  by (simp add: listing_db_def seller_listing_def order_100_def)

lemma unique_half:
  "unique_trade_code half_tape [] (generate_trade_code half_tape 0) = Some (''SSSSS'', 5)"
  by (subst unique_trade_code.simps) (simp add: gen_half)

lemma unique_scenario:
  "unique_trade_code scenario_tape [] (generate_trade_code scenario_tape 0) = Some (''AB12C'', 5)"
  by (subst unique_trade_code.simps) (simp add: gen_scenario)

lemma listing_db_tables:
  "deals listing_db = []" "logs listing_db = []" "engine listing_db = SQLite"
  "deals pg_listing_db = []" "logs pg_listing_db = []" "engine pg_listing_db = PostgreSQL"
  "deals pg_buyer_db = []" "logs pg_buyer_db = []" "engine pg_buyer_db = PostgreSQL"
  by (simp_all add: listing_db_def pg_listing_db_def pg_buyer_db_def)

lemma new_deal_AB12C:
  "new_deal default_config order_100 listing_db seller_listing ''AB12C'' default_fraction = deal_AB12C"
  by (simp add: new_deal_def default_config_def order_100_def listing_db_def seller_listing_def
      deal_AB12C_def next_id_def Let_def mul_100_130 mul_100_fraction del: fmul.simps)

lemma create_scenario:
  "create_deal default_config scenario_tape 0 order_100 listing_db =
     Some (Inr deal_AB12C,
           listing_db\<lparr>deals := [deal_AB12C],
                      logs := [new_log order_100 listing_db deal_AB12C ''AB12C'']\<rparr>, 5)"
proof -
  have u: "unique_trade_code scenario_tape (deals listing_db) (generate_trade_code scenario_tape 0)
             = Some (''AB12C'', 5)"
    by (simp add: listing_db_tables unique_scenario)
  have v: "deal_violation listing_db
             (new_deal default_config order_100 listing_db seller_listing ''AB12C'' default_fraction) = None"
    by (rule deal_violation_SQLite) (simp add: listing_db_tables)
  show ?thesis
    using create_deal_row [OF find_seller_listing u default_fraction_eq v]
    by (simp add: new_deal_AB12C listing_db_tables)
qed

lemma negative_order_accepted:
  "map_option fst (create_deal default_config half_tape 0 negative_order listing_db) =
     Some (Inr negative_deal)"
proof -
  have l: "find (\<lambda>l. Listing.id l = DealCreate.listing_id negative_order) (listings listing_db)
             = Some seller_listing"
    by (simp add: listing_db_def seller_listing_def negative_order_def)
  have u: "unique_trade_code half_tape (deals listing_db) (generate_trade_code half_tape 0)
             = Some (''SSSSS'', 5)"
    by (simp add: listing_db_tables unique_half)
  have v: "deal_violation listing_db
             (new_deal default_config negative_order listing_db seller_listing ''SSSSS'' default_fraction) = None"
    by (rule deal_violation_SQLite) (simp add: listing_db_tables)
  have d: "new_deal default_config negative_order listing_db seller_listing ''SSSSS'' default_fraction
             = negative_deal"
    by (simp add: new_deal_def default_config_def negative_order_def listing_db_def
        seller_listing_def negative_deal_def next_id_def Let_def mul_minus5_130
        mul_minus5_fraction del: fmul.simps)
  show ?thesis
    using create_deal_row [OF l u default_fraction_eq v] by (simp add: d)
qed

text \<open>
  Claim C8, as stated, fails: the handler does not check \<open>usdt_amount\<close> again. Called with
  a body whose amount is \<open>-5\<close> it stores a deal with negative amounts.
\<close>

theorem create_deal_no_revalidation_counterexample:
  "\<not> fgt (DealCreate.usdt_amount negative_order) (Finite False 0) \<and>
   map_option fst (create_deal default_config half_tape 0 negative_order listing_db) =
     Some (Inr negative_deal) \<and>
   Deal.usdt_amount negative_deal = Finite True 5 \<and> Deal.etb_amount negative_deal = Finite True 650"
  using negative_order_accepted by (simp add: negative_order_def negative_deal_def)

text \<open>
  Claim C8, amended. \<open>create_deal\<close> answers 404 when no listing has the requested id. The
  amount is checked by the request schema alone: a \<^verbatim>\<open>POST /deals\<close> body whose
  \<open>usdt_amount\<close> is not greater than 0, so every number that is \<open>\<le> 0\<close>, is rejected with
  a validation error before the handler runs and the database is unchanged, and a body
  with an amount greater than 0 reaches the handler as it is.
\<close>

theorem create_deal_validation:
  "(find (\<lambda>l. Listing.id l = DealCreate.listing_id body) (listings db) = None \<longrightarrow>
      create_deal cfg rnd pos body db = Some (Inl (HTTPException 404 ''Listing not found''), db, pos)) \<and>
   (\<not> fgt (DealCreate.usdt_amount body) (Finite False 0) \<longrightarrow>
      post_deals cfg rnd pos body db = Some (Inl (RequestValidationError ''usdt_amount''), db, pos)) \<and>
   (\<forall>s m. DealCreate.usdt_amount body = Finite s m \<longrightarrow> (if s then - m else m) \<le> 0 \<longrightarrow>
      post_deals cfg rnd pos body db = Some (Inl (RequestValidationError ''usdt_amount''), db, pos)) \<and>
   (fgt (DealCreate.usdt_amount body) (Finite False 0) \<longrightarrow>
      post_deals cfg rnd pos body db = create_deal cfg rnd pos body db)"
  by (auto simp: create_deal_no_listing post_deals_def validate_DealCreate_def)

theorem create_deal_validation_witness:
  "create_deal default_config half_tape 0 missing_listing_order listing_db =
     Some (Inl (HTTPException 404 ''Listing not found''), listing_db, 0) \<and>
   post_deals default_config half_tape 0 negative_order listing_db =
     Some (Inl (RequestValidationError ''usdt_amount''), listing_db, 0) \<and>
   post_deals default_config scenario_tape 0 order_100 listing_db =
     Some (Inr deal_AB12C,
           listing_db\<lparr>deals := [deal_AB12C],
                      logs := [new_log order_100 listing_db deal_AB12C ''AB12C'']\<rparr>, 5)"
proof -
  have a: "find (\<lambda>l. Listing.id l = DealCreate.listing_id missing_listing_order) (listings listing_db) = None"
    by (simp add: missing_listing_order_def listing_db_def seller_listing_def)
  have b: "DealCreate.usdt_amount negative_order = Finite True 5" "(if True then - 5 else 5 :: real) \<le> 0"
    by (simp_all add: negative_order_def)
  have c: "fgt (DealCreate.usdt_amount order_100) (Finite False 0)"
    by (simp add: order_100_def)
  from create_deal_validation [of missing_listing_order listing_db default_config half_tape 0] a
  have 1: "create_deal default_config half_tape 0 missing_listing_order listing_db =
     Some (Inl (HTTPException 404 ''Listing not found''), listing_db, 0)"
    by blast
  from create_deal_validation [of negative_order listing_db default_config half_tape 0] b
  have 2: "post_deals default_config half_tape 0 negative_order listing_db =
     Some (Inl (RequestValidationError ''usdt_amount''), listing_db, 0)"
    by blast
  from create_deal_validation [of order_100 listing_db default_config scenario_tape 0] c
  have "post_deals default_config scenario_tape 0 order_100 listing_db =
          create_deal default_config scenario_tape 0 order_100 listing_db"
    by blast
  with create_scenario have 3: "post_deals default_config scenario_tape 0 order_100 listing_db =
     Some (Inr deal_AB12C,
           listing_db\<lparr>deals := [deal_AB12C],
                      logs := [new_log order_100 listing_db deal_AB12C ''AB12C'']\<rparr>, 5)"
    by simp
  from 1 2 3 show ?thesis
    by (intro conjI)
qed

lemma find_seller_listing_pg:
  "find (\<lambda>l. Listing.id l = DealCreate.listing_id order_stranger) (listings pg_listing_db)
     = Some seller_listing"
  by (simp add: pg_listing_db_def listing_db_def seller_listing_def order_stranger_def)

lemma stranger_rejected:
  "create_deal default_config half_tape 0 order_stranger pg_listing_db =
     Some (Inl IntegrityError, pg_listing_db, 5)"
proof -
  have u: "unique_trade_code half_tape (deals pg_listing_db) (generate_trade_code half_tape 0)
             = Some (''SSSSS'', 5)"
    by (simp add: listing_db_tables unique_half)
  have v: "deal_violation pg_listing_db
             (new_deal default_config order_stranger pg_listing_db seller_listing ''SSSSS'' default_fraction)
           = Some IntegrityError"
    by (simp add: deal_violation_def new_deal_def Let_def pg_listing_db_def listing_db_def
        seller_listing_def seller_one_def order_stranger_def default_config_def int4_def
        del: fmul.simps)
  show ?thesis
    using create_deal_rejected [OF find_seller_listing_pg u default_fraction_eq v] .
qed

text \<open>
  Claim C9, as stated, fails on PostgreSQL: the listing exists, no user has the buyer's
  id, and the commit is rejected; no deal is stored.
\<close>

theorem buyer_rejected_by_postgres_counterexample:
  "find (\<lambda>l. Listing.id l = DealCreate.listing_id order_stranger) (listings pg_listing_db)
     = Some seller_listing \<and>
   create_deal default_config half_tape 0 order_stranger pg_listing_db =
     Some (Inl IntegrityError, pg_listing_db, 5) \<and>
   deals pg_listing_db = []"
  using find_seller_listing_pg stranger_rejected by (simp add: listing_db_tables)

text \<open>
  Claim C9, amended. \<open>create_deal\<close> itself never looks the buyer up and never answers 404
  for the buyer. With an existing listing and a loop that meets a free code: on SQLite
  the call succeeds and stores a deal with the requested \<open>buyer_id\<close>, the same deal
  whatever the users table holds; on PostgreSQL it succeeds when the row is storable,
  and when no user has the buyer's id the commit is rejected with a database error and
  the database is unchanged.
\<close>

theorem buyer_checked_by_engine_only:
  assumes l: "find (\<lambda>l. Listing.id l = DealCreate.listing_id deal) (listings db) = Some l"
    and free: "find (\<lambda>d. Deal.trade_code d = fst (generate_trade_code rnd (pos + 5 * n))) (deals db) = None"
  shows "(engine db = SQLite \<longrightarrow>
            (\<exists>d. Deal.buyer_id d = DealCreate.buyer_id deal \<and>
                 (\<forall>us. \<exists>db' pos'. create_deal cfg rnd pos deal (db\<lparr>users := us\<rparr>)
                                     = Some (Inr d, db', pos') \<and>
                                   d \<in> set (deals db') \<and> users db' = us))) \<and>
         (engine db = PostgreSQL \<longrightarrow> storable cfg deal l db \<longrightarrow>
            (\<exists>d db' pos'. create_deal cfg rnd pos deal db = Some (Inr d, db', pos') \<and>
                          Deal.buyer_id d = DealCreate.buyer_id deal \<and> d \<in> set (deals db'))) \<and>
         (engine db = PostgreSQL \<longrightarrow> DealCreate.buyer_id deal \<notin> set (map User.id (users db)) \<longrightarrow>
            (\<exists>e pos'. create_deal cfg rnd pos deal db = Some (Inl e, db, pos') \<and>
                      (e = IntegrityError \<or> e = DataError))) \<and>
         (\<forall>res db' pos'. create_deal cfg rnd pos deal db = Some (res, db', pos') \<longrightarrow>
            (\<forall>msg. res \<noteq> Inl (HTTPException 404 msg)))"
proof -
  from unique_trade_code_returns [OF free] obtain code pos' where
    u: "unique_trade_code rnd (deals db) (generate_trade_code rnd pos) = Some (code, pos')"
    by auto
  from unique_trade_code_length [OF u] have len: "length code = 5"
    by (simp add: generate_trade_code_length)
  from ftruediv_100 obtain fraction where
    f: "ftruediv (COMMISSION_PERCENT cfg) (Finite False 100) = Inr fraction"
    by blast
  let ?d = "new_deal cfg deal db l code fraction"
  have b: "Deal.buyer_id ?d = DealCreate.buyer_id deal"
    by (simp add: new_deal_def Let_def)
  have sqlite: "\<exists>db' pos'. create_deal cfg rnd pos deal (db\<lparr>users := us\<rparr>) = Some (Inr ?d, db', pos') \<and>
          ?d \<in> set (deals db') \<and> users db' = us" if e: "engine db = SQLite" for us
  proof -
    have l': "find (\<lambda>l. Listing.id l = DealCreate.listing_id deal) (listings (db\<lparr>users := us\<rparr>)) = Some l"
      using l by simp
    have u': "unique_trade_code rnd (deals (db\<lparr>users := us\<rparr>)) (generate_trade_code rnd pos) = Some (code, pos')"
      using u by simp
    have same: "new_deal cfg deal (db\<lparr>users := us\<rparr>) l code fraction = ?d"
      by (rule new_deal_cong) simp_all
    have v: "deal_violation (db\<lparr>users := us\<rparr>) (new_deal cfg deal (db\<lparr>users := us\<rparr>) l code fraction) = None"
      by (rule deal_violation_SQLite) (simp add: e)
    from create_deal_row [OF l' u' f v] show ?thesis
      by (simp add: same)
  qed
  have postgres: "\<exists>d db' pos'. create_deal cfg rnd pos deal db = Some (Inr d, db', pos') \<and>
          Deal.buyer_id d = DealCreate.buyer_id deal \<and> d \<in> set (deals db')"
    if "storable cfg deal l db"
  proof -
    from deal_violation_storable [OF l that len]
    have v: "deal_violation db ?d = None" .
    from create_deal_row [OF l u f v] b show ?thesis
      by simp
  qed
  have rejected: "\<exists>e pos'. create_deal cfg rnd pos deal db = Some (Inl e, db, pos') \<and>
          (e = IntegrityError \<or> e = DataError)"
    if e: "engine db = PostgreSQL" and nb: "DealCreate.buyer_id deal \<notin> set (map User.id (users db))"
  proof -
    from deal_violation_no_buyer [OF e nb, of cfg l code fraction]
    consider "deal_violation db ?d = Some DataError" | "deal_violation db ?d = Some IntegrityError"
      by blast
    then show ?thesis
    proof cases
      case 1
      from create_deal_rejected [OF l u f 1] show ?thesis by blast
    next
      case 2
      from create_deal_rejected [OF l u f 2] show ?thesis by blast
    qed
  qed
  have found: "res \<noteq> Inl (HTTPException 404 msg)"
    if c: "create_deal cfg rnd pos deal db = Some (res, db', pos'')" for res db' pos'' msg
  proof (cases "deal_violation db ?d")
    case None
    from create_deal_row [OF l u f None] c show ?thesis by auto
  next
    case (Some e)
    then have "e = DataError \<or> e = IntegrityError"
      by (auto simp: deal_violation_def split: engine.splits if_splits)
    with create_deal_rejected [OF l u f Some] c show ?thesis by auto
  qed
  from b sqlite postgres rejected found show ?thesis
    by blast
qed

theorem buyer_checked_by_engine_only_witness:
  "find (\<lambda>u. User.id u = DealCreate.buyer_id order_stranger) (users listing_db) = None \<and>
   (\<exists>d db' pos'. create_deal default_config half_tape 0 order_stranger listing_db
                   = Some (Inr d, db', pos') \<and>
                 Deal.buyer_id d = 999 \<and> d \<in> set (deals db')) \<and>
   (\<exists>e pos'. create_deal default_config half_tape 0 order_stranger pg_listing_db
               = Some (Inl e, pg_listing_db, pos') \<and> (e = IntegrityError \<or> e = DataError)) \<and>
   (\<exists>d db' pos'. create_deal default_config half_tape 0 order_100 pg_buyer_db
                   = Some (Inr d, db', pos') \<and>
                 Deal.buyer_id d = 2 \<and> d \<in> set (deals db'))"
proof -
  have nobody: "find (\<lambda>u. User.id u = DealCreate.buyer_id order_stranger) (users listing_db) = None"
    by (simp add: listing_db_def seller_one_def order_stranger_def)
  have l: "find (\<lambda>l. Listing.id l = DealCreate.listing_id order_stranger) (listings listing_db)
             = Some seller_listing"
    by (simp add: listing_db_def seller_listing_def order_stranger_def)
  have free: "find (\<lambda>d. Deal.trade_code d = fst (generate_trade_code half_tape (0 + 5 * 0)))
                (deals listing_db) = None"
    by (simp add: listing_db_tables)
  have us: "listing_db\<lparr>users := users listing_db\<rparr> = listing_db"
    by simp
  have b: "DealCreate.buyer_id order_stranger = 999"
    by (simp add: order_stranger_def)
  from buyer_checked_by_engine_only [OF l free, of default_config] listing_db_tables(3)
  obtain d where
    "Deal.buyer_id d = DealCreate.buyer_id order_stranger"
    "\<exists>db' pos'. create_deal default_config half_tape 0 order_stranger
        (listing_db\<lparr>users := users listing_db\<rparr>) = Some (Inr d, db', pos') \<and> d \<in> set (deals db')"
    by blast
  then have sqlite: "\<exists>d db' pos'. create_deal default_config half_tape 0 order_stranger listing_db
                   = Some (Inr d, db', pos') \<and> Deal.buyer_id d = 999 \<and> d \<in> set (deals db')"
    unfolding us b by blast
  have free_pg: "find (\<lambda>d. Deal.trade_code d = fst (generate_trade_code half_tape (0 + 5 * 0)))
                (deals pg_listing_db) = None"
    by (simp add: listing_db_tables)
  have absent: "DealCreate.buyer_id order_stranger \<notin> set (map User.id (users pg_listing_db))"
    by (simp add: pg_listing_db_def listing_db_def seller_one_def order_stranger_def)
  from buyer_checked_by_engine_only [OF find_seller_listing_pg free_pg, of default_config]
    listing_db_tables(6) absent
  have rejected: "\<exists>e pos'. create_deal default_config half_tape 0 order_stranger pg_listing_db
               = Some (Inl e, pg_listing_db, pos') \<and> (e = IntegrityError \<or> e = DataError)"
    by blast
  have l2: "find (\<lambda>l. Listing.id l = DealCreate.listing_id order_100) (listings pg_buyer_db)
              = Some seller_listing"
    by (simp add: pg_buyer_db_def listing_db_def seller_listing_def order_100_def)
  have free2: "find (\<lambda>d. Deal.trade_code d = fst (generate_trade_code half_tape (0 + 5 * 0)))
                (deals pg_buyer_db) = None"
    by (simp add: listing_db_tables)
  have st: "storable default_config order_100 seller_listing pg_buyer_db"
    by (simp add: storable_def default_config_def order_100_def seller_listing_def pg_buyer_db_def
        listing_db_def seller_one_def buyer_two_def int4_def)
  have b2: "DealCreate.buyer_id order_100 = 2"
    by (simp add: order_100_def)
  from buyer_checked_by_engine_only [OF l2 free2, of default_config] listing_db_tables(9) st
  have stored: "\<exists>d db' pos'. create_deal default_config half_tape 0 order_100 pg_buyer_db
                   = Some (Inr d, db', pos') \<and> Deal.buyer_id d = 2 \<and> d \<in> set (deals db')"
    unfolding b2 by blast
  from nobody sqlite rejected stored show ?thesis
    by (intro conjI)
qed

lemma find_status_rewrite:
  "find (\<lambda>l. Listing.id l = j)
     (map (\<lambda>x. if Listing.id x = k then x\<lparr>Listing.status := s\<rparr> else x) ls) =
   map_option (\<lambda>x. if Listing.id x = k then x\<lparr>Listing.status := s\<rparr> else x)
     (find (\<lambda>l. Listing.id l = j) ls)"
  by (induction ls) simp_all

lemma with_listing_status_tables:
  "deals (with_listing_status k s db) = deals db"
  "users (with_listing_status k s db) = users db"
  "logs (with_listing_status k s db) = logs db"
  "engine (with_listing_status k s db) = engine db"
  "map Listing.id (listings (with_listing_status k s db)) = map Listing.id (listings db)"
  by (simp_all add: with_listing_status_def comp_def)

lemma deal_violation_status:
  "deal_violation (with_listing_status k s db) row = deal_violation db row"
  unfolding deal_violation_def by (simp only: with_listing_status_tables)

lemma create_deal_status_blind:
  "map_option fst (create_deal cfg rnd pos deal (with_listing_status k s db)) =
   map_option fst (create_deal cfg rnd pos deal db)"
proof (cases "find (\<lambda>l. Listing.id l = DealCreate.listing_id deal) (listings db)")
  case None
  then have "find (\<lambda>l. Listing.id l = DealCreate.listing_id deal)
               (listings (with_listing_status k s db)) = None"
    by (simp add: with_listing_status_def find_status_rewrite)
  from create_deal_no_listing [OF this] create_deal_no_listing [OF None] show ?thesis
    by simp
next
  case l: (Some l)
  let ?db = "with_listing_status k s db"
  let ?l = "if Listing.id l = k then l\<lparr>Listing.status := s\<rparr> else l"
  have l': "find (\<lambda>l. Listing.id l = DealCreate.listing_id deal) (listings ?db) = Some ?l"
    by (simp add: with_listing_status_def find_status_rewrite l)
  show ?thesis
  proof (cases "unique_trade_code rnd (deals db) (generate_trade_code rnd pos)")
    case None
    then show ?thesis
      using l l' by (simp add: create_deal_def with_listing_status_tables)
  next
    case (Some r)
    obtain code p where r: "r = (code, p)"
      by (cases r)
    have u: "unique_trade_code rnd (deals db) (generate_trade_code rnd pos) = Some (code, p)"
      using Some r by simp
    then have u': "unique_trade_code rnd (deals ?db) (generate_trade_code rnd pos) = Some (code, p)"
      by (simp add: with_listing_status_tables)
    from ftruediv_100 obtain fraction where
      f: "ftruediv (COMMISSION_PERCENT cfg) (Finite False 100) = Inr fraction"
      by blast
    have same: "new_deal cfg deal ?db ?l code fraction = new_deal cfg deal db l code fraction"
      by (rule new_deal_cong) (simp_all add: with_listing_status_tables)
    show ?thesis
    proof (cases "deal_violation db (new_deal cfg deal db l code fraction)")
      case None
      then have "deal_violation ?db (new_deal cfg deal ?db ?l code fraction) = None"
        by (simp only: same deal_violation_status)
      from create_deal_row [OF l' u' f this] create_deal_row [OF l u f None] show ?thesis
        by (simp add: same)
    next
      case (Some e)
      then have "deal_violation ?db (new_deal cfg deal ?db ?l code fraction) = Some e"
        by (simp only: same deal_violation_status)
      from create_deal_rejected [OF l' u' f this] create_deal_rejected [OF l u f Some] show ?thesis
        by simp
    qed
  qed
qed

text \<open>
  Claim C10. When the listing exists, the loop meets a free code and the engine takes
  the row (always on SQLite), \<open>create_deal\<close> succeeds whatever status the listing has, and
  the deal it returns is the same for every status, so the same as for an active
  listing. With no condition at all, the answer of \<open>create_deal\<close> does not depend on the
  status.
\<close>

theorem listing_status_ignored:
  assumes l: "find (\<lambda>l. Listing.id l = DealCreate.listing_id deal) (listings db) = Some l"
    and free: "find (\<lambda>d. Deal.trade_code d = fst (generate_trade_code rnd (pos + 5 * n))) (deals db) = None"
    and ok: "engine db = SQLite \<or> storable cfg deal l db"
  shows "(\<exists>d pos'. \<forall>s. \<exists>db'.
           create_deal cfg rnd pos deal (with_listing_status (DealCreate.listing_id deal) s db)
             = Some (Inr d, db', pos') \<and>
           d \<in> set (deals db')) \<and>
         (\<forall>s. map_option fst
                 (create_deal cfg rnd pos deal (with_listing_status (DealCreate.listing_id deal) s db))
               = map_option fst (create_deal cfg rnd pos deal db))"
proof -
  from unique_trade_code_returns [OF free] obtain code pos' where
    u: "unique_trade_code rnd (deals db) (generate_trade_code rnd pos) = Some (code, pos')"
    by auto
  from unique_trade_code_length [OF u] have len: "length code = 5"
    by (simp add: generate_trade_code_length)
  from ftruediv_100 obtain fraction where
    f: "ftruediv (COMMISSION_PERCENT cfg) (Finite False 100) = Inr fraction"
    by blast
  let ?d = "new_deal cfg deal db l code fraction"
  have v: "deal_violation db ?d = None"
    using l ok len by (rule accepted)
  have "\<exists>db'. create_deal cfg rnd pos deal (with_listing_status (DealCreate.listing_id deal) s db)
                 = Some (Inr ?d, db', pos') \<and> ?d \<in> set (deals db')" for s
  proof -
    let ?db = "with_listing_status (DealCreate.listing_id deal) s db"
    have l': "find (\<lambda>l. Listing.id l = DealCreate.listing_id deal) (listings ?db)
                = Some (l\<lparr>Listing.status := s\<rparr>)"
      using l by (auto simp: with_listing_status_def find_status_rewrite find_Some_iff)
    have u': "unique_trade_code rnd (deals ?db) (generate_trade_code rnd pos) = Some (code, pos')"
      using u by (simp add: with_listing_status_tables)
    have same: "new_deal cfg deal ?db (l\<lparr>Listing.status := s\<rparr>) code fraction = ?d"
      by (rule new_deal_cong) (simp_all add: with_listing_status_tables)
    have v': "deal_violation ?db (new_deal cfg deal ?db (l\<lparr>Listing.status := s\<rparr>) code fraction) = None"
      using v by (simp only: same deal_violation_status)
    from create_deal_row [OF l' u' f v'] show ?thesis
      by (simp add: same)
  qed
  then have "\<exists>d pos'. \<forall>s. \<exists>db'.
           create_deal cfg rnd pos deal (with_listing_status (DealCreate.listing_id deal) s db)
             = Some (Inr d, db', pos') \<and> d \<in> set (deals db')"
    by blast
  with create_deal_status_blind show ?thesis
    by blast
qed

theorem listing_status_ignored_witness:
  "\<exists>d pos'.
     (\<exists>db'. create_deal default_config half_tape 0 order_100
               (with_listing_status 1 ''completed'' listing_db) = Some (Inr d, db', pos')) \<and>
     (\<exists>db'. create_deal default_config half_tape 0 order_100
               (with_listing_status 1 ''inactive'' listing_db) = Some (Inr d, db', pos')) \<and>
     (\<exists>db'. create_deal default_config half_tape 0 order_100
               (with_listing_status 1 ''active'' listing_db) = Some (Inr d, db', pos')) \<and>
     map Listing.status (listings (with_listing_status 1 ''completed'' listing_db)) = [''completed'']"
proof -
  have free: "find (\<lambda>d. Deal.trade_code d = fst (generate_trade_code half_tape (0 + 5 * 0)))
                (deals listing_db) = None"
    by (simp add: listing_db_tables)
  have ok: "engine listing_db = SQLite \<or> storable default_config order_100 seller_listing listing_db"
    by (simp add: listing_db_tables)
  have k: "DealCreate.listing_id order_100 = 1"
    by (simp add: order_100_def)
  have st: "map Listing.status (listings (with_listing_status 1 ''completed'' listing_db)) = [''completed'']"
    by (simp add: with_listing_status_def listing_db_def seller_listing_def)
  from listing_status_ignored [OF find_seller_listing free ok]
  obtain d pos' where every:
    "\<forall>s. \<exists>db'. create_deal default_config half_tape 0 order_100
                   (with_listing_status 1 s listing_db) = Some (Inr d, db', pos') \<and>
                 d \<in> set (deals db')"
    unfolding k by (elim exE conjE)
  from spec [OF every, of "''completed''"]
  have c: "\<exists>db'. create_deal default_config half_tape 0 order_100
               (with_listing_status 1 ''completed'' listing_db) = Some (Inr d, db', pos')"
    by (elim exE conjE) (rule exI)
  from spec [OF every, of "''inactive''"]
  have i: "\<exists>db'. create_deal default_config half_tape 0 order_100
               (with_listing_status 1 ''inactive'' listing_db) = Some (Inr d, db', pos')"
    by (elim exE conjE) (rule exI)
  from spec [OF every, of "''active''"]
  have a: "\<exists>db'. create_deal default_config half_tape 0 order_100
               (with_listing_status 1 ''active'' listing_db) = Some (Inr d, db', pos')"
    by (elim exE conjE) (rule exI)
  from c i a st have
    "(\<exists>db'. create_deal default_config half_tape 0 order_100
               (with_listing_status 1 ''completed'' listing_db) = Some (Inr d, db', pos')) \<and>
     (\<exists>db'. create_deal default_config half_tape 0 order_100
               (with_listing_status 1 ''inactive'' listing_db) = Some (Inr d, db', pos')) \<and>
     (\<exists>db'. create_deal default_config half_tape 0 order_100
               (with_listing_status 1 ''active'' listing_db) = Some (Inr d, db', pos')) \<and>
     map Listing.status (listings (with_listing_status 1 ''completed'' listing_db)) = [''completed'']"
    by (intro conjI)
  then show ?thesis
    by (intro exI)
qed

section \<open>The deals table over a run of requests\<close>

lemma map_set_status:
  assumes "\<And>d s. f (d\<lparr>Deal.status := s\<rparr>) = f d"
  shows "map f (set_status k s ds) = map f ds"
  by (induction ds) (simp_all add: set_status_def assms)

lemma deals_create_user: "deals (snd (create_user u db)) = deals db"
  by (simp add: create_user_def Let_def split: option.splits)

lemma deals_create_listing: "deals (snd (create_listing l db)) = deals db"
  by (simp add: create_listing_def Let_def split: option.splits)

lemma deals_confirm_payment:
  "deals (snd (confirm_payment c db)) = deals db \<or>
   (\<exists>k. deals (snd (confirm_payment c db)) = set_status k ''paid'' (deals db))"
  by (auto simp: confirm_payment_def Let_def split: option.splits)

lemma deals_release_funds:
  "deals (snd (release_funds cfg r db)) = deals db \<or>
   (\<exists>k. deals (snd (release_funds cfg r db)) = set_status k ''released'' (deals db))"
  by (auto simp: release_funds_def Let_def split: option.splits)

text \<open>
  What one request does to the deals table: it rewrites statuses, or appends one deal
  whose code no earlier deal carries.
\<close>

lemma handle_deals:
  assumes "handle cfg rnd req (db, pos) = Some (db', pos')"
  shows "(\<exists>k s. deals db' = set_status k s (deals db)) \<or> deals db' = deals db \<or>
         (\<exists>d. deals db' = deals db @ [d] \<and>
              find (\<lambda>x. Deal.trade_code x = Deal.trade_code d) (deals db) = None)"
proof (cases req)
  case (Create_user u)
  with assms show ?thesis by (auto simp: deals_create_user)
next
  case (Create_listing l)
  with assms show ?thesis by (auto simp: deals_create_listing)
next
  case (Create_deal deal)
  with assms obtain res where "create_deal cfg rnd pos deal db = Some (res, db', pos')"
    by auto
  from create_deal_cases [OF this] show ?thesis
    by (auto simp: new_deal_def Let_def)
next
  case (Confirm_payment c)
  with assms deals_confirm_payment [of c db] show ?thesis by auto
next
  case (Release_funds r)
  with assms deals_release_funds [of cfg r db] show ?thesis by auto
qed

lemma handle_prefix:
  assumes "handle cfg rnd req (db, pos) = Some (db', pos')"
    and "\<And>d s. f (d\<lparr>Deal.status := s\<rparr>) = f d"
  shows "prefix (map f (deals db)) (map f (deals db'))"
  using handle_deals [OF assms(1)] map_set_status [of f, OF assms(2)]
  by auto

lemma handle_distinct:
  assumes "handle cfg rnd req (db, pos) = Some (db', pos')"
    and "distinct (map Deal.trade_code (deals db))"
  shows "distinct (map Deal.trade_code (deals db'))"
proof -
  have st: "map Deal.trade_code (set_status k s ds) = map Deal.trade_code ds" for k s ds
    by (rule map_set_status) simp
  from handle_deals [OF assms(1)] consider
      (status) k s where "deals db' = set_status k s (deals db)"
    | (same) "deals db' = deals db"
    | (new) d where "deals db' = deals db @ [d]"
        "find (\<lambda>x. Deal.trade_code x = Deal.trade_code d) (deals db) = None"
    by blast
  then show ?thesis
  proof cases
    case status
    with assms(2) show ?thesis by (simp add: st)
  next
    case same
    with assms(2) show ?thesis by simp
  next
    case new
    from new(2) have "Deal.trade_code d \<notin> set (map Deal.trade_code (deals db))"
      by (auto simp: find_None_iff)
    with assms(2) new(1) show ?thesis by simp
  qed
qed

lemma run_prefix:
  assumes "run cfg rnd reqs (db, pos) = Some (db', pos')"
    and "\<And>d s. f (d\<lparr>Deal.status := s\<rparr>) = f d"
  shows "prefix (map f (deals db)) (map f (deals db'))"
  using assms(1)
proof (induction reqs arbitrary: db pos)
  case Nil
  then show ?case by simp
next
  case (Cons r rs)
  then obtain db1 pos1 where h: "handle cfg rnd r (db, pos) = Some (db1, pos1)"
    and rest: "run cfg rnd rs (db1, pos1) = Some (db', pos')"
    by (auto split: option.splits)
  from handle_prefix [OF h assms(2)] Cons.IH [OF rest] show ?case
    by (rule prefix_order.trans)
qed

lemma run_distinct:
  assumes "run cfg rnd reqs (db, pos) = Some (db', pos')"
    and "distinct (map Deal.trade_code (deals db))"
  shows "distinct (map Deal.trade_code (deals db'))"
  using assms
proof (induction reqs arbitrary: db pos)
  case Nil
  then show ?case by simp
next
  case (Cons r rs)
  then obtain db1 pos1 where h: "handle cfg rnd r (db, pos) = Some (db1, pos1)"
    and rest: "run cfg rnd rs (db1, pos1) = Some (db', pos')"
    by (auto split: option.splits)
  from handle_distinct [OF h Cons.prems(2)] have "distinct (map Deal.trade_code (deals db1))" .
  with rest show ?case by (rule Cons.IH)
qed

text \<open>
  Claim C4. Starting from a deals table without repeated codes (the empty one, for
  instance), every run of requests ends in a table without repeated codes that still
  begins with the codes it started from: no deal is removed and none changes its code.
  A deal created next carries a code that no stored deal has, because the loop draws
  again until that is so.
\<close>

theorem trade_code_unique:
  assumes "distinct (map Deal.trade_code (deals db))"
    and "run cfg rnd reqs (db, pos) = Some (db', pos')"
  shows "distinct (map Deal.trade_code (deals db')) \<and>
         prefix (map Deal.trade_code (deals db)) (map Deal.trade_code (deals db')) \<and>
         (\<forall>deal d db1 pos1. create_deal cfg rnd pos' deal db' = Some (Inr d, db1, pos1) \<longrightarrow>
            find (\<lambda>x. Deal.trade_code x = Deal.trade_code d) (deals db') = None \<and>
            deals db1 = deals db' @ [d])"
proof (intro conjI allI impI)
  show "distinct (map Deal.trade_code (deals db'))"
    using assms(2,1) by (rule run_distinct)
  show "prefix (map Deal.trade_code (deals db)) (map Deal.trade_code (deals db'))"
    using assms(2) by (rule run_prefix) simp
next
  fix deal d db1 pos1
  assume "create_deal cfg rnd pos' deal db' = Some (Inr d, db1, pos1)"
  from create_deal_cases [OF this]
  show "find (\<lambda>x. Deal.trade_code x = Deal.trade_code d) (deals db') = None"
    and "deals db1 = deals db' @ [d]"
    by (auto simp: new_deal_def Let_def)
qed

lemma run_setup:
  "run cfg rnd [Create_user seller_signup, Create_listing sell_offer] (empty_database SQLite, pos)
     = Some (listing_db, pos)"
  by (simp add: create_user_def create_listing_def seller_signup_def sell_offer_def
      empty_database_def listing_db_def seller_one_def seller_listing_def next_id_def Let_def
      user_violation_def listing_violation_def)

lemma run_two_orders:
  "map_option (\<lambda>s. (map Deal.trade_code (deals (fst s)), snd s))
     (run default_config colliding_tape two_orders (empty_database SQLite, 0))
   = Some ([''AAAAA'', ''SSSSS''], 15)"
  using run_setup [of default_config colliding_tape 0]
  by (simp add: two_orders_def create_deal_def unique_trade_code.simps gen_colliding listing_db_def
      seller_listing_def order_100_def new_deal_def new_log_def deal_violation_def Let_def
      default_fraction_eq del: ftruediv.simps fmul.simps)

theorem trade_code_unique_witness:
  "distinct (map Deal.trade_code (deals (empty_database SQLite))) \<and>
   (\<exists>db'. run default_config colliding_tape two_orders (empty_database SQLite, 0) = Some (db', 15) \<and>
          map Deal.trade_code (deals db') = [''AAAAA'', ''SSSSS''] \<and>
          distinct (map Deal.trade_code (deals db')))"
proof -
  have d0: "distinct (map Deal.trade_code (deals (empty_database SQLite)))"
    by (simp add: empty_database_def)
  from run_two_orders obtain db' where
    r: "run default_config colliding_tape two_orders (empty_database SQLite, 0) = Some (db', 15)"
    and c: "map Deal.trade_code (deals db') = [''AAAAA'', ''SSSSS'']"
    by auto
  from trade_code_unique [OF d0 r] have "distinct (map Deal.trade_code (deals db'))"
    by blast
  with d0 r c show ?thesis by auto
qed

lemma prefix_nth:
  assumes "prefix xs ys" and "i < length xs"
  shows "i < length ys \<and> ys ! i = xs ! i"
  using assms by (auto simp: prefix_def nth_append)

lemma create_45:
  "create_deal default_config half_tape 0 order_45 listing_db =
     Some (Inr deal_45,
           listing_db\<lparr>deals := [deal_45], logs := [new_log order_45 listing_db deal_45 ''SSSSS'']\<rparr>, 5)"
proof -
  have l: "find (\<lambda>l. Listing.id l = DealCreate.listing_id order_45) (listings listing_db)
             = Some seller_listing"
    by (simp add: listing_db_def seller_listing_def order_45_def)
  have u: "unique_trade_code half_tape (deals listing_db) (generate_trade_code half_tape 0)
             = Some (''SSSSS'', 5)"
    by (simp add: listing_db_tables unique_half)
  have v: "deal_violation listing_db
             (new_deal default_config order_45 listing_db seller_listing ''SSSSS'' default_fraction) = None"
    by (rule deal_violation_SQLite) (simp add: listing_db_tables)
  have d: "new_deal default_config order_45 listing_db seller_listing ''SSSSS'' default_fraction = deal_45"
    by (simp add: new_deal_def default_config_def order_45_def listing_db_def
        seller_listing_def deal_45_def next_id_def Let_def mul_45_130 mul_45_fraction
        del: fmul.simps)
  show ?thesis
    using create_deal_row [OF l u default_fraction_eq v] by (simp add: d listing_db_tables)
qed

text \<open>
  Claim C5, as stated, fails: for 45 USDT at the default 1.5 percent the stored
  commission is the double 0.6749999999999999, while \<open>usdt_amount * commission_percent / 100\<close>
  is the double 0.675, computed in doubles from left to right or exactly and then
  rounded.
\<close>

theorem commission_rounding_counterexample:
  "create_deal default_config half_tape 0 order_45 listing_db =
     Some (Inr deal_45,
           listing_db\<lparr>deals := [deal_45], logs := [new_log order_45 listing_db deal_45 ''SSSSS'']\<rparr>, 5) \<and>
   Deal.commission_amount deal_45 = Finite False (6079859496950169 / 9007199254740992) \<and>
   ftruediv (fmul (DealCreate.usdt_amount order_45) (COMMISSION_PERCENT default_config))
     (Finite False 100) = Inr (Finite False (6079859496950170 / 9007199254740992)) \<and>
   float_of (45 * (3 / 2) / 100) = Finite False (6079859496950170 / 9007199254740992) \<and>
   Inr (Deal.commission_amount deal_45) \<noteq>
     ftruediv (fmul (DealCreate.usdt_amount order_45) (COMMISSION_PERCENT default_config))
       (Finite False 100)"
proof -
  have c: "Deal.commission_amount deal_45 = Finite False (6079859496950169 / 9007199254740992)"
    by (simp add: deal_45_def)
  have q: "ftruediv (fmul (DealCreate.usdt_amount order_45) (COMMISSION_PERCENT default_config))
     (Finite False 100) = Inr (Finite False (6079859496950170 / 9007199254740992))"
    using div_product_100
    by (simp add: order_45_def default_config_def mul_45_percent del: fmul.simps ftruediv.simps)
  have n: "Inr (Deal.commission_amount deal_45) \<noteq>
     ftruediv (fmul (DealCreate.usdt_amount order_45) (COMMISSION_PERCENT default_config))
       (Finite False 100)"
    unfolding q c by simp
  from create_45 c q float_of_0675 n show ?thesis
    by (intro conjI)
qed

text \<open>
  Claim C5, amended. A deal that \<open>create_deal\<close> returns has the double product
  \<open>usdt_amount * rate\<close> of the listing found as \<open>etb_amount\<close> and the double product of
  \<open>usdt_amount\<close> with the double \<open>COMMISSION_PERCENT / 100\<close> as \<open>commission_amount\<close>. It is
  stored at the end of the deals table, and after the listings table is replaced by
  any other (a changed rate, for instance) and any run of requests, the deal at that
  place has the same two amounts.
\<close>

theorem amounts_frozen:
  assumes c: "create_deal cfg rnd pos deal db = Some (Inr d, db1, pos1)"
    and r: "run cfg rnd reqs (db1\<lparr>listings := ls\<rparr>, pos1) = Some (db2, pos2)"
  shows "\<exists>l fraction.
           find (\<lambda>l. Listing.id l = DealCreate.listing_id deal) (listings db) = Some l \<and>
           ftruediv (COMMISSION_PERCENT cfg) (Finite False 100) = Inr fraction \<and>
           Deal.etb_amount d = fmul (DealCreate.usdt_amount deal) (Listing.rate l) \<and>
           Deal.commission_amount d = fmul (DealCreate.usdt_amount deal) fraction \<and>
           deals db1 ! length (deals db) = d \<and>
           length (deals db) < length (deals db2) \<and>
           Deal.etb_amount (deals db2 ! length (deals db)) = Deal.etb_amount d \<and>
           Deal.commission_amount (deals db2 ! length (deals db)) = Deal.commission_amount d"
proof -
  from create_deal_cases [OF c] obtain l code fraction where
    d: "d = new_deal cfg deal db l code fraction"
    and l: "find (\<lambda>l. Listing.id l = DealCreate.listing_id deal) (listings db) = Some l"
    and f: "ftruediv (COMMISSION_PERCENT cfg) (Finite False 100) = Inr fraction"
    and db1: "deals db1 = deals db @ [d]"
    by auto
  have at: "deals db1 ! length (deals db) = d"
    by (simp add: db1)
  have len: "length (deals db) < length (deals (db1\<lparr>listings := ls\<rparr>))"
    by (simp add: db1)
  have pe: "prefix (map Deal.etb_amount (deals (db1\<lparr>listings := ls\<rparr>))) (map Deal.etb_amount (deals db2))"
    using r by (rule run_prefix) simp
  from prefix_nth [OF pe, of "length (deals db)"] len
  have lt: "length (deals db) < length (deals db2)"
    and e: "map Deal.etb_amount (deals db2) ! length (deals db)
              = map Deal.etb_amount (deals db1) ! length (deals db)"
    by simp_all
  from e have etb: "Deal.etb_amount (deals db2 ! length (deals db)) = Deal.etb_amount d"
    by (simp add: nth_map [OF lt] db1 nth_append)
  have pc: "prefix (map Deal.commission_amount (deals (db1\<lparr>listings := ls\<rparr>)))
          (map Deal.commission_amount (deals db2))"
    using r by (rule run_prefix) simp
  from prefix_nth [OF pc, of "length (deals db)"] len
  have "map Deal.commission_amount (deals db2) ! length (deals db)
          = map Deal.commission_amount (deals db1) ! length (deals db)"
    by simp
  then have com: "Deal.commission_amount (deals db2 ! length (deals db)) = Deal.commission_amount d"
    by (simp add: nth_map [OF lt] db1 nth_append)
  have "Deal.etb_amount d = fmul (DealCreate.usdt_amount deal) (Listing.rate l)"
    and "Deal.commission_amount d = fmul (DealCreate.usdt_amount deal) fraction"
    by (simp_all add: d new_deal_def Let_def del: fmul.simps)
  with l f at lt etb com show ?thesis
    by blast
qed

theorem amounts_frozen_witness:
  "create_deal default_config scenario_tape 0 order_100 listing_db =
     Some (Inr deal_AB12C,
           listing_db\<lparr>deals := [deal_AB12C],
                      logs := [new_log order_100 listing_db deal_AB12C ''AB12C'']\<rparr>, 5) \<and>
   Deal.etb_amount deal_AB12C = Finite False 13000 \<and>
   Deal.commission_amount deal_AB12C = Finite False (3 / 2) \<and>
   Deal.status deal_AB12C = ''pending'' \<and>
   (\<exists>db2. run default_config scenario_tape [Confirm_payment confirm_AB12C]
            (listing_db\<lparr>deals := [deal_AB12C],
                        logs := [new_log order_100 listing_db deal_AB12C ''AB12C''],
                        listings := repriced\<rparr>, 5) = Some (db2, 5) \<and>
          map Listing.rate (listings db2) = [Finite False 140] \<and>
          map Deal.status (deals db2) = [''paid''] \<and>
          Deal.etb_amount (deals db2 ! 0) = Finite False 13000 \<and>
          Deal.commission_amount (deals db2 ! 0) = Finite False (3 / 2))"
proof -
  let ?db1 = "listing_db\<lparr>deals := [deal_AB12C],
                logs := [new_log order_100 listing_db deal_AB12C ''AB12C'']\<rparr>"
  have "map_option (\<lambda>s. (map Listing.rate (listings (fst s)), map Deal.status (deals (fst s)), snd s))
          (run default_config scenario_tape [Confirm_payment confirm_AB12C]
             (?db1\<lparr>listings := repriced\<rparr>, 5)) = Some ([Finite False 140], [''paid''], 5)"
    by (simp add: confirm_payment_def confirm_AB12C_def remove_hash_def startswith_def
        deal_AB12C_def listing_db_def repriced_def seller_listing_def set_status_def Let_def)
  then obtain db2 where
    r: "run default_config scenario_tape [Confirm_payment confirm_AB12C]
          (?db1\<lparr>listings := repriced\<rparr>, 5) = Some (db2, 5)"
    and rates: "map Listing.rate (listings db2) = [Finite False 140]"
    and st: "map Deal.status (deals db2) = [''paid'']"
    by auto
  have vals: "Deal.etb_amount deal_AB12C = Finite False 13000"
    "Deal.commission_amount deal_AB12C = Finite False (3 / 2)"
    "Deal.status deal_AB12C = ''pending''"
    by (simp_all add: deal_AB12C_def)
  have len: "length (deals listing_db) = 0"
    by (simp add: listing_db_def)
  from amounts_frozen [OF create_scenario r]
  have "Deal.etb_amount (deals db2 ! 0) = Finite False 13000 \<and>
        Deal.commission_amount (deals db2 ! 0) = Finite False (3 / 2)"
    by (auto simp: len vals)
  with create_scenario r rates st vals show ?thesis
    by auto
qed

end
